theory Spec2Isabelle
  imports Complex_Main
begin

section \<open>Build configuration\<close>

text \<open>
  The sources are compiled for one geometry at a time; the preprocessor symbols
  \<^verbatim>\<open>WARPX_DIM_1D_Z\<close>, \<^verbatim>\<open>WARPX_DIM_XZ\<close>, \<^verbatim>\<open>WARPX_DIM_RZ\<close> and \<^verbatim>\<open>WARPX_DIM_3D\<close> select it and
  fix \<^verbatim>\<open>AMREX_SPACEDIM\<close>. The build is an explicit argument of every function whose body
  contains an \<^verbatim>\<open>#if\<close> on it.
\<close>

datatype warpx_dim = WARPX_DIM_1D_Z | WARPX_DIM_XZ | WARPX_DIM_RZ | WARPX_DIM_3D

fun AMREX_SPACEDIM :: "warpx_dim \<Rightarrow> nat" where
  "AMREX_SPACEDIM WARPX_DIM_1D_Z = 1"
| "AMREX_SPACEDIM WARPX_DIM_XZ = 2"
| "AMREX_SPACEDIM WARPX_DIM_RZ = 2"
| "AMREX_SPACEDIM WARPX_DIM_3D = 3"

text \<open>
  A loop over a list whose body may hit undefined behaviour (an access outside an array,
  which the sources do not check): the loop stops with \<open>None\<close> at the first such access.
\<close>

fun for_each :: "('a \<Rightarrow> 's \<Rightarrow> 's option) \<Rightarrow> 'a list \<Rightarrow> 's \<Rightarrow> 's option" where
  "for_each body [] s = Some s"
| "for_each body (i # is) s = (case body i s of None \<Rightarrow> None | Some s' \<Rightarrow> for_each body is s')"

section \<open>Particle position push (UpdatePosition)\<close>

text \<open>
  \<^verbatim>\<open>amrex::Real\<close> and \<^verbatim>\<open>amrex::ParticleReal\<close> are modelled by the mathematical reals: the
  development is about the formula the pusher evaluates, not about rounding. The speed of
  light \<^verbatim>\<open>PhysConst::c\<close> comes from a header outside the sources at hand and is an argument.
  The three positions are passed by reference in the source; the model returns the triple
  of their new values.
\<close>

definition inv_c2 :: "real \<Rightarrow> real" where
  "inv_c2 c = 1 / (c * c)"

definition UpdatePosition ::
  "warpx_dim \<Rightarrow> real \<Rightarrow> real \<times> real \<times> real \<Rightarrow> real \<Rightarrow> real \<Rightarrow> real \<Rightarrow> real \<Rightarrow> real \<times> real \<times> real" where
  "UpdatePosition D c pos ux uy uz dt =
     (case pos of (x, y, z) \<Rightarrow>
        let inv_gamma = 1 / sqrt (1 + (ux * ux + uy * uy + uz * uz) * inv_c2 c);
            x' = (if AMREX_SPACEDIM D \<ge> 2 then x + ux * inv_gamma * dt else x);
            y' = (if D = WARPX_DIM_3D \<or> D = WARPX_DIM_RZ then y + uy * inv_gamma * dt else y);
            z' = z + uz * inv_gamma * dt
        in (x', y', z'))"

section \<open>Custom density injector (InjectorDensityCustom)\<close>

text \<open>
  The constructor reads the array \<^verbatim>\<open>custom_profile_params\<close> of the species from the input
  deck and copies it into the fixed array \<^verbatim>\<open>p\<close> of six reals. \<^verbatim>\<open>getArrWithParser\<close> is
  defined outside the sources at hand; what it delivers is given by the deck after
  parsing: a table from (prefix, parameter name) to the list of values, absent when the
  parameter is not given, in which case \<^verbatim>\<open>getArrWithParser\<close> aborts. The array \<^verbatim>\<open>p\<close> starts
  uninitialised (\<open>None\<close> in every slot); \<^verbatim>\<open>amrex::GpuArray\<close> does not check its index, so a
  write at an index of 6 or more is undefined behaviour, which the model reports as
  \<open>WriteOutOfBounds\<close>.
\<close>

datatype injector_error = TooManyParameters | ParameterNotFound | WriteOutOfBounds

type_synonym input_deck = "string \<times> string \<rightharpoonup> real list"

definition getArrWithParser :: "input_deck \<Rightarrow> string \<Rightarrow> string \<Rightarrow> injector_error + real list" where
  "getArrWithParser deck prefix name =
     (case deck (prefix, name) of None \<Rightarrow> Inl ParameterNotFound | Some v \<Rightarrow> Inr v)"

text \<open>The loop \<^verbatim>\<open>for (i = 0; i < v.size(); ++i) p[i] = v[i]\<close>, started at index \<open>i\<close>.\<close>

fun copy_params :: "nat \<Rightarrow> real list \<Rightarrow> real option list \<Rightarrow> injector_error + real option list" where
  "copy_params i [] p = Inr p"
| "copy_params i (x # xs) p =
     (if i < length p then copy_params (Suc i) xs (p[i := Some x]) else Inl WriteOutOfBounds)"

definition InjectorDensityCustom :: "input_deck \<Rightarrow> string \<Rightarrow> injector_error + real option list" where
  "InjectorDensityCustom deck species_name =
     (let v = ([] :: real list) in
      if \<not> length v \<le> 6 then Inl TooManyParameters
      else
        case getArrWithParser deck species_name ''custom_profile_params'' of
          Inl e \<Rightarrow> Inl e
        | Inr v \<Rightarrow> copy_params 0 v (replicate 6 None))"

section \<open>Registry of runtime particle attributes (WarpXParticleContainer)\<close>

text \<open>
  The container keeps four maps from attribute names to column indices and, through its
  AMReX base class, the numbers of runtime real and integer columns. \<^verbatim>\<open>NumRealComps()\<close> is
  the number of compile-time real columns (\<^verbatim>\<open>PIdx::nattribs\<close>, an argument here) plus the
  runtime ones; there are no compile-time integer columns. The base-class
  \<^verbatim>\<open>AddRealComp(comm)\<close> adds one runtime column and records its communication flag.
  Messages sent to \<^verbatim>\<open>amrex::Print()\<close> are collected in \<open>printed\<close>.
\<close>

record WarpXParticleContainer =
  particle_comps :: "string \<rightharpoonup> int"
  particle_icomps :: "string \<rightharpoonup> int"
  particle_runtime_comps :: "string \<rightharpoonup> int"
  particle_runtime_icomps :: "string \<rightharpoonup> int"
  m_num_runtime_real :: int
  m_num_runtime_int :: int
  h_redistribute_real_comp :: "bool list"
  h_redistribute_int_comp :: "bool list"
  printed :: "string list"

definition NumRealComps :: "int \<Rightarrow> WarpXParticleContainer \<Rightarrow> int" where
  "NumRealComps nattribs pc = nattribs + m_num_runtime_real pc"

definition NumIntComps :: "WarpXParticleContainer \<Rightarrow> int" where
  "NumIntComps pc = 0 + m_num_runtime_int pc"

definition base_AddRealComp :: "bool \<Rightarrow> WarpXParticleContainer \<Rightarrow> WarpXParticleContainer" where
  "base_AddRealComp comm pc =
     pc\<lparr>m_num_runtime_real := m_num_runtime_real pc + 1,
        h_redistribute_real_comp := h_redistribute_real_comp pc @ [comm]\<rparr>"

definition base_AddIntComp :: "bool \<Rightarrow> WarpXParticleContainer \<Rightarrow> WarpXParticleContainer" where
  "base_AddIntComp comm pc =
     pc\<lparr>m_num_runtime_int := m_num_runtime_int pc + 1,
        h_redistribute_int_comp := h_redistribute_int_comp pc @ [comm]\<rparr>"

definition AddRealComp :: "int \<Rightarrow> string \<Rightarrow> bool \<Rightarrow> WarpXParticleContainer \<Rightarrow> WarpXParticleContainer" where
  "AddRealComp nattribs name comm pc =
     (case particle_comps pc name of
        None \<Rightarrow>
          (let pc1 = pc\<lparr>particle_comps := (particle_comps pc)(name \<mapsto> NumRealComps nattribs pc)\<rparr>;
               pc2 = pc1\<lparr>particle_runtime_comps :=
                        (particle_runtime_comps pc1)(name \<mapsto> NumRealComps nattribs pc1 - nattribs)\<rparr>
           in base_AddRealComp comm pc2)
      | Some _ \<Rightarrow>
          pc\<lparr>printed := printed pc @ [name @ '' already exists in particle_comps, not adding.'']\<rparr>)"

definition AddIntComp :: "string \<Rightarrow> bool \<Rightarrow> WarpXParticleContainer \<Rightarrow> WarpXParticleContainer" where
  "AddIntComp name comm pc =
     (case particle_icomps pc name of
        None \<Rightarrow>
          (let pc1 = pc\<lparr>particle_icomps := (particle_icomps pc)(name \<mapsto> NumIntComps pc)\<rparr>;
               pc2 = pc1\<lparr>particle_runtime_icomps :=
                        (particle_runtime_icomps pc1)(name \<mapsto> NumIntComps pc1 - 0)\<rparr>
           in base_AddIntComp comm pc2)
      | Some _ \<Rightarrow>
          pc\<lparr>printed := printed pc @ [name @ '' already exists in particle_icomps, not adding.'']\<rparr>)"

text \<open>What the registry consists of: the four maps and the two column counts.\<close>

definition registry ::
  "int \<Rightarrow> WarpXParticleContainer \<Rightarrow>
   (string \<rightharpoonup> int) \<times> (string \<rightharpoonup> int) \<times> (string \<rightharpoonup> int) \<times> (string \<rightharpoonup> int) \<times> int \<times> int" where
  "registry nattribs pc =
     (particle_comps pc, particle_runtime_comps pc, particle_icomps pc, particle_runtime_icomps pc,
      NumRealComps nattribs pc, NumIntComps pc)"

text \<open>A container with the four compile-time attributes and one runtime attribute.\<close>

definition example_container :: WarpXParticleContainer where
  "example_container =
     \<lparr>particle_comps = [''w'' \<mapsto> 0, ''ux'' \<mapsto> 1, ''uy'' \<mapsto> 2, ''uz'' \<mapsto> 3, ''ionization_level'' \<mapsto> 4],
      particle_icomps = [''ionization_level'' \<mapsto> 0],
      particle_runtime_comps = [''ionization_level'' \<mapsto> 0],
      particle_runtime_icomps = [''ionization_level'' \<mapsto> 0],
      m_num_runtime_real = 1,
      m_num_runtime_int = 1,
      h_redistribute_real_comp = [True],
      h_redistribute_int_comp = [True],
      printed = []\<rparr>"

section \<open>Back-transformed diagnostics: when a snapshot buffer is dumped (BTDiagnostics)\<close>

text \<open>
  Of the diagnostics object, the model keeps the per-snapshot bookkeeping vectors and the
  buffer size. An \<^verbatim>\<open>amrex::Vector\<close> is a list; its \<^verbatim>\<open>operator[]\<close> does not check the index,
  so an access outside the vector is undefined behaviour and every function that indexes a
  vector returns \<open>None\<close> in that case. Counters are \<^verbatim>\<open>int\<close> in the source and unbounded
  integers here.
\<close>

record BTDiagnostics =
  m_num_buffers :: nat
  m_buffer_size :: int
  m_buffer_counter :: "int list"
  m_buffer_flush_counter :: "int list"
  m_snapshot_full :: "int list"
  m_lastValidZSlice :: "int list"

definition vec_at :: "'a list \<Rightarrow> int \<Rightarrow> 'a option" where
  "vec_at xs i = (if 0 \<le> i \<and> i < int (length xs) then Some (xs ! nat i) else None)"

definition vec_set :: "'a list \<Rightarrow> int \<Rightarrow> 'a \<Rightarrow> 'a list option" where
  "vec_set xs i v = (if 0 \<le> i \<and> i < int (length xs) then Some (xs[nat i := v]) else None)"

text \<open>\<^verbatim>\<open>std::vector::resize\<close> on a vector of integers: new slots are zero.\<close>

definition resize :: "int list \<Rightarrow> nat \<Rightarrow> int list" where
  "resize xs n = take n xs @ replicate (n - length xs) 0"

text \<open>
  \<^verbatim>\<open>DerivedInitData\<close>, the initialiser: it sizes every vector to the number of buffers and
  clears the two status vectors. It runs once, before any snapshot is filled.
\<close>

definition DerivedInitData :: "BTDiagnostics \<Rightarrow> BTDiagnostics option" where
  "DerivedInitData d =
     (let n = m_num_buffers d;
          d1 = d\<lparr>m_buffer_counter := resize (m_buffer_counter d) n,
                 m_buffer_flush_counter := resize (m_buffer_flush_counter d) n,
                 m_snapshot_full := resize (m_snapshot_full d) n,
                 m_lastValidZSlice := resize (m_lastValidZSlice d) n\<rparr>
      in for_each (\<lambda>i d'.
           case vec_set (m_snapshot_full d') i 0 of None \<Rightarrow> None
           | Some sf \<Rightarrow>
               (case vec_set (m_lastValidZSlice d') i 0 of None \<Rightarrow> None
                | Some lv \<Rightarrow> Some (d'\<lparr>m_snapshot_full := sf, m_lastValidZSlice := lv\<rparr>)))
         [0 .. int n - 1] d1)"

text \<open>
  The helpers \<^verbatim>\<open>buffer_full\<close>, \<^verbatim>\<open>buffer_empty\<close>, \<^verbatim>\<open>ResetBufferCounter\<close> and
  \<^verbatim>\<open>IncrementBufferFlushCounter\<close> are declared in the class header, which is not among the
  sources at hand. They are arguments of the functions that call them. The two that change
  the object have to leave the status vector \<^verbatim>\<open>m_snapshot_full\<close> alone, as their names say;
  nothing else is assumed about the four.
\<close>

record header_helpers =
  buffer_full :: "BTDiagnostics \<Rightarrow> int \<Rightarrow> bool option"
  buffer_empty :: "BTDiagnostics \<Rightarrow> int \<Rightarrow> bool option"
  ResetBufferCounter :: "int \<Rightarrow> BTDiagnostics \<Rightarrow> BTDiagnostics option"
  IncrementBufferFlushCounter :: "int \<Rightarrow> BTDiagnostics \<Rightarrow> BTDiagnostics option"

definition keep_snapshot_status :: "header_helpers \<Rightarrow> bool" where
  "keep_snapshot_status H =
     (\<forall>i d d'. (ResetBufferCounter H i d = Some d' \<longrightarrow> m_snapshot_full d' = m_snapshot_full d) \<and>
               (IncrementBufferFlushCounter H i d = Some d' \<longrightarrow> m_snapshot_full d' = m_snapshot_full d))"

text \<open>
  The helpers as their names and the comments at their call sites describe them: the
  buffer is full when its counter has reached the buffer size, empty when the counter is
  zero; the reset puts the counter back to zero and the increment adds one to the flush
  counter.
\<close>

definition counter_helpers :: header_helpers where
  "counter_helpers =
     \<lparr>buffer_full = (\<lambda>d i_buffer.
        map_option (\<lambda>c. c = m_buffer_size d) (vec_at (m_buffer_counter d) i_buffer)),
      buffer_empty = (\<lambda>d i_buffer. map_option (\<lambda>c. c = 0) (vec_at (m_buffer_counter d) i_buffer)),
      ResetBufferCounter = (\<lambda>i_buffer d.
        map_option (\<lambda>v. d\<lparr>m_buffer_counter := v\<rparr>) (vec_set (m_buffer_counter d) i_buffer 0)),
      IncrementBufferFlushCounter = (\<lambda>i_buffer d.
        case vec_at (m_buffer_flush_counter d) i_buffer of None \<Rightarrow> None
        | Some c \<Rightarrow> map_option (\<lambda>v. d\<lparr>m_buffer_flush_counter := v\<rparr>)
                      (vec_set (m_buffer_flush_counter d) i_buffer (c + 1)))\<rparr>"

definition DoDump :: "header_helpers \<Rightarrow> BTDiagnostics \<Rightarrow> int \<Rightarrow> int \<Rightarrow> bool \<Rightarrow> bool option" where
  "DoDump H d step i_buffer force_flush =
     (if step < 0 then Some False
      else case vec_at (m_snapshot_full d) i_buffer of None \<Rightarrow> None
      | Some full \<Rightarrow>
          if full = 1 then Some False
          else case buffer_full H d i_buffer of None \<Rightarrow> None
          | Some bf \<Rightarrow>
              if bf then Some True
              else case vec_at (m_lastValidZSlice d) i_buffer of None \<Rightarrow> None
              | Some lv \<Rightarrow>
                  if lv = 1 then Some True
                  else if force_flush then
                    (case buffer_empty H d i_buffer of None \<Rightarrow> None
                     | Some be \<Rightarrow> if \<not> be then Some True else Some False)
                  else Some False)"

text \<open>
  \<^verbatim>\<open>InitializeBufferData\<close> computes the lab-frame geometry of one snapshot (floating-point
  data outside this model) and clears its two counters.
\<close>

definition InitializeBufferData :: "int \<Rightarrow> BTDiagnostics \<Rightarrow> BTDiagnostics option" where
  "InitializeBufferData i_buffer d =
     (case vec_set (m_buffer_flush_counter d) i_buffer 0 of None \<Rightarrow> None
      | Some fc \<Rightarrow>
          (case vec_set (m_buffer_counter d) i_buffer 0 of None \<Rightarrow> None
           | Some bc \<Rightarrow> Some (d\<lparr>m_buffer_flush_counter := fc, m_buffer_counter := bc\<rparr>)))"

text \<open>
  \<^verbatim>\<open>UpdateBufferData\<close>: whether the current slice lies in the domain
  (\<^verbatim>\<open>GetZSliceInDomainFlag\<close>) and the lab-frame index of the slice (\<^verbatim>\<open>k_index_zlab\<close>) are
  computed from floating-point geometry; here they are given per buffer by the two
  arguments. The loops over levels and functors run once each.
\<close>

definition UpdateBufferData ::
  "(int \<Rightarrow> bool) \<Rightarrow> (int \<Rightarrow> int) \<Rightarrow> BTDiagnostics \<Rightarrow> BTDiagnostics option" where
  "UpdateBufferData ZSliceInDomain k_index_zlab d =
     for_each (\<lambda>i_buffer d'.
        case (if ZSliceInDomain i_buffer then
                (case vec_at (m_buffer_counter d') i_buffer of None \<Rightarrow> None
                 | Some c \<Rightarrow> map_option (\<lambda>v. d'\<lparr>m_buffer_counter := v\<rparr>)
                               (vec_set (m_buffer_counter d') i_buffer (c + 1)))
              else Some d') of
          None \<Rightarrow> None
        | Some d'' \<Rightarrow>
            if k_index_zlab i_buffer = 0 then
              map_option (\<lambda>v. d''\<lparr>m_lastValidZSlice := v\<rparr>) (vec_set (m_lastValidZSlice d'') i_buffer 1)
            else Some d'')
      [0 .. int (m_num_buffers d) - 1] d"

definition SetSnapshotFullStatus :: "int \<Rightarrow> BTDiagnostics \<Rightarrow> BTDiagnostics option" where
  "SetSnapshotFullStatus i_buffer d =
     (case vec_at (m_snapshot_full d) i_buffer of None \<Rightarrow> None
      | Some full \<Rightarrow>
          if full = 1 then Some d
          else case vec_at (m_lastValidZSlice d) i_buffer of None \<Rightarrow> None
          | Some lv \<Rightarrow>
              if lv = 1 then map_option (\<lambda>v. d\<lparr>m_snapshot_full := v\<rparr>) (vec_set (m_snapshot_full d) i_buffer 1)
              else Some d)"

text \<open>
  \<^verbatim>\<open>Flush\<close>: of its effects the model keeps those on the bookkeeping vectors; writing the
  file and the particle buffers are outside it.
\<close>

definition Flush :: "header_helpers \<Rightarrow> int \<Rightarrow> BTDiagnostics \<Rightarrow> BTDiagnostics option" where
  "Flush H i_buffer d =
     (case SetSnapshotFullStatus i_buffer d of None \<Rightarrow> None
      | Some d1 \<Rightarrow>
          (case ResetBufferCounter H i_buffer d1 of None \<Rightarrow> None
           | Some d2 \<Rightarrow> IncrementBufferFlushCounter H i_buffer d2))"

text \<open>
  The operations that run on an initialised diagnostics object and write one of the
  bookkeeping vectors, and a run of any sequence of them.
\<close>

datatype btd_operation =
    Op_InitializeBufferData int
  | Op_UpdateBufferData "int \<Rightarrow> bool" "int \<Rightarrow> int"
  | Op_SetSnapshotFullStatus int
  | Op_Flush int

fun perform :: "header_helpers \<Rightarrow> btd_operation \<Rightarrow> BTDiagnostics \<Rightarrow> BTDiagnostics option" where
  "perform H (Op_InitializeBufferData i) d = InitializeBufferData i d"
| "perform H (Op_UpdateBufferData zs k) d = UpdateBufferData zs k d"
| "perform H (Op_SetSnapshotFullStatus i) d = SetSnapshotFullStatus i d"
| "perform H (Op_Flush i) d = Flush H i d"

definition run :: "header_helpers \<Rightarrow> btd_operation list \<Rightarrow> BTDiagnostics \<Rightarrow> BTDiagnostics option" where
  "run H ops d = for_each (perform H) ops d"

text \<open>Two snapshots: the first is being filled and has its last slice, the second is complete.\<close>

definition example_btd :: BTDiagnostics where
  "example_btd =
     \<lparr>m_num_buffers = 2, m_buffer_size = 256, m_buffer_counter = [3, 0],
      m_buffer_flush_counter = [1, 4], m_snapshot_full = [0, 1], m_lastValidZSlice = [1, 1]\<rparr>"

definition example_ops :: "btd_operation list" where
  "example_ops =
     [Op_UpdateBufferData (\<lambda>i. True) (\<lambda>i. 0), Op_Flush 0, Op_Flush 1, Op_InitializeBufferData 1,
      Op_SetSnapshotFullStatus 1]"

definition example_btd_after :: BTDiagnostics where
  "example_btd_after =
     \<lparr>m_num_buffers = 2, m_buffer_size = 256, m_buffer_counter = [0, 0],
      m_buffer_flush_counter = [2, 0], m_snapshot_full = [1, 1], m_lastValidZSlice = [1, 1]\<rparr>"

section \<open>Coarsening and interpolation between mesh fields (CoarsenIO)\<close>

subsection \<open>Index vectors and boxes\<close>

text \<open>
  An \<^verbatim>\<open>amrex::IntVect\<close> holds \<^verbatim>\<open>AMREX_SPACEDIM\<close> integers. It is a triple here, of which a
  build with fewer dimensions uses the first one or two components only. \<^verbatim>\<open>IntVect(v)\<close>
  sets every component to \<open>v\<close>; sum and difference are componentwise. The order of AMReX
  on index vectors is lexicographic with the last axis the most significant:
  \<^verbatim>\<open>a < b\<close> is \<^verbatim>\<open>a[2] < b[2] || (a[2] == b[2] && (a[1] < b[1] || (a[1] == b[1] && a[0] < b[0])))\<close>
  in three dimensions and the corresponding shorter formula in two and one, \<^verbatim>\<open>a > b\<close> is
  \<^verbatim>\<open>b < a\<close> and \<^verbatim>\<open>a >= b\<close> is \<^verbatim>\<open>!(a < b)\<close>. Where a comparison on every axis is meant,
  the sources call \<^verbatim>\<open>allGT\<close> and its relatives, as \<^verbatim>\<open>WarpX::CheckGuardCells\<close> does.
\<close>

type_synonym IntVect = "int \<times> int \<times> int"

definition IntVect_of :: "int \<Rightarrow> IntVect" where
  "IntVect_of v = (v, v, v)"

fun IntVect_plus :: "IntVect \<Rightarrow> IntVect \<Rightarrow> IntVect" where
  "IntVect_plus (a0, a1, a2) (b0, b1, b2) = (a0 + b0, a1 + b1, a2 + b2)"

fun IntVect_minus :: "IntVect \<Rightarrow> IntVect \<Rightarrow> IntVect" where
  "IntVect_minus (a0, a1, a2) (b0, b1, b2) = (a0 - b0, a1 - b1, a2 - b2)"

fun IntVect_eq :: "warpx_dim \<Rightarrow> IntVect \<Rightarrow> IntVect \<Rightarrow> bool" where
  "IntVect_eq D (a0, a1, a2) (b0, b1, b2) =
     (a0 = b0 \<and> (AMREX_SPACEDIM D < 2 \<or> a1 = b1) \<and> (AMREX_SPACEDIM D < 3 \<or> a2 = b2))"

fun IntVect_lt :: "warpx_dim \<Rightarrow> IntVect \<Rightarrow> IntVect \<Rightarrow> bool" where
  "IntVect_lt D (a0, a1, a2) (b0, b1, b2) =
     (if AMREX_SPACEDIM D = 1 then a0 < b0
      else if AMREX_SPACEDIM D = 2 then a1 < b1 \<or> (a1 = b1 \<and> a0 < b0)
      else a2 < b2 \<or> (a2 = b2 \<and> (a1 < b1 \<or> (a1 = b1 \<and> a0 < b0))))"

definition IntVect_gt :: "warpx_dim \<Rightarrow> IntVect \<Rightarrow> IntVect \<Rightarrow> bool" where
  "IntVect_gt D a b = IntVect_lt D b a"

definition IntVect_ge :: "warpx_dim \<Rightarrow> IntVect \<Rightarrow> IntVect \<Rightarrow> bool" where
  "IntVect_ge D a b = (\<not> IntVect_lt D a b)"

text \<open>The components of an index vector that the build uses.\<close>

fun components :: "warpx_dim \<Rightarrow> IntVect \<Rightarrow> int list" where
  "components D (a0, a1, a2) = take (AMREX_SPACEDIM D) [a0, a1, a2]"

text \<open>
  A box is a range of indices per axis, both ends included. Kernels always run over three
  indices \<open>(i, j, k)\<close>; an axis the build does not have contributes the single index 0.
\<close>

record Box =
  smallEnd :: IntVect
  bigEnd :: IntVect

definition grow :: "Box \<Rightarrow> IntVect \<Rightarrow> Box" where
  "grow bx ng = \<lparr>smallEnd = IntVect_minus (smallEnd bx) ng, bigEnd = IntVect_plus (bigEnd bx) ng\<rparr>"

definition cells :: "warpx_dim \<Rightarrow> Box \<Rightarrow> (int \<times> int \<times> int) list" where
  "cells D bx =
     (case (smallEnd bx, bigEnd bx) of ((l0, l1, l2), (h0, h1, h2)) \<Rightarrow>
        concat (map (\<lambda>k. concat (map (\<lambda>j. map (\<lambda>i. (i, j, k)) [l0 .. h0])
                                      (if 2 \<le> AMREX_SPACEDIM D then [l1 .. h1] else [0])))
                    (if 3 \<le> AMREX_SPACEDIM D then [l2 .. h2] else [0])))"

definition in_box :: "warpx_dim \<Rightarrow> Box \<Rightarrow> int \<times> int \<times> int \<Rightarrow> bool" where
  "in_box D bx c =
     (case (smallEnd bx, bigEnd bx, c) of ((l0, l1, l2), (h0, h1, h2), (i, j, k)) \<Rightarrow>
        l0 \<le> i \<and> i \<le> h0 \<and>
        (if 2 \<le> AMREX_SPACEDIM D then l1 \<le> j \<and> j \<le> h1 else j = 0) \<and>
        (if 3 \<le> AMREX_SPACEDIM D then l2 \<le> k \<and> k \<le> h2 else k = 0))"

subsection \<open>Mesh fields\<close>

text \<open>
  A \<^verbatim>\<open>MultiFab\<close> has a list of valid boxes with their staggering (0 for a cell-centred
  axis, 1 for a nodal one), the owner of each box, a guard-cell width, a number of
  components and one array of reals per box. An array (\<^verbatim>\<open>Array4\<close>) is a partial map from
  \<open>((i, j, k), n)\<close> to the stored value, defined exactly on its allocated cells and
  components. \<^verbatim>\<open>Array4\<close> does not check its indices: an access outside the allocation is
  undefined behaviour, \<open>None\<close> in the functions below.
\<close>

type_synonym Array4 = "(int \<times> int \<times> int) \<times> int \<rightharpoonup> real"

record MultiFab =
  boxArray :: "Box list"
  ixType :: IntVect
  DistributionMap :: "nat list"
  nGrowVect :: IntVect
  nComp :: int
  fabs :: "Array4 list"

datatype coarsen_error =
    GuardFillWithCoarsening
  | NotEnoughGuardCells
  | NotCoarsenable
  | OutOfBoundsAccess

subsection \<open>The interpolation stencil\<close>

text \<open>
  A stencil gives, for the staggering of the source, the staggering of the destination,
  the coarsening ratio and a destination index, the source cells that enter the value at
  that index, each with its weight.
\<close>

type_synonym stencil =
  "IntVect \<Rightarrow> IntVect \<Rightarrow> IntVect \<Rightarrow> int \<Rightarrow> int \<Rightarrow> int \<Rightarrow> ((int \<times> int \<times> int) \<times> real) list"

text \<open>
  Modelled from the spec: \<^verbatim>\<open>CoarsenIO::Interp\<close> is defined in the header \<^verbatim>\<open>CoarsenIO.H\<close>, which
  is not among the sources at hand; only its call in \<^verbatim>\<open>CoarsenIO::Loop\<close> is. The spec says
  that it produces, for each destination cell, "a component-wise weighted average of the
  enclosing source cells", by "an index-shift/linear-combination formula depending on
  relative staggering of each axis". Which source cells enclose a destination cell, and
  with which weights, is therefore an argument, the stencil, and \<open>Interp\<close> is the linear
  combination it describes. A read outside the source array is undefined behaviour.
\<close>

definition Interp ::
  "stencil \<Rightarrow> Array4 \<Rightarrow> IntVect \<Rightarrow> IntVect \<Rightarrow> IntVect \<Rightarrow> int \<Rightarrow> int \<Rightarrow> int \<Rightarrow> int \<Rightarrow> real option" where
  "Interp st arr_src sf sc cr i j k icomp =
     map_option sum_list
       (those (map (\<lambda>(c, w). map_option (\<lambda>v. w * v) (arr_src (c, icomp))) (st sf sc cr i j k)))"

text \<open>
  Modelled from the spec: the stencil of \<^verbatim>\<open>CoarsenIO::Interp\<close> is a "weighted average", that
  is, its weights sum to one for every destination index.
\<close>

definition weighted_average :: "stencil \<Rightarrow> bool" where
  "weighted_average st = (\<forall>sf sc cr i j k. sum_list (map snd (st sf sc cr i j k)) = 1)"

subsection \<open>CoarsenIO::Loop\<close>

text \<open>
  The kernel of \<^verbatim>\<open>Loop\<close> for one destination index and component, the sweep of
  \<^verbatim>\<open>ParallelFor\<close> over a box and \<open>ncomp\<close> components, and the loop over the boxes of the
  destination. Tiles partition a box, so a box is swept as a whole. The source array is the
  one at the position of the destination box, as \<^verbatim>\<open>mf_src.const_array(mfi)\<close> takes it.
\<close>

definition write_cell ::
  "stencil \<Rightarrow> Array4 \<Rightarrow> IntVect \<Rightarrow> IntVect \<Rightarrow> IntVect \<Rightarrow> int \<Rightarrow> int \<Rightarrow>
   (int \<times> int \<times> int) \<times> int \<Rightarrow> Array4 \<Rightarrow> Array4 option" where
  "write_cell st arr_src sf sc cr dcomp scmp cn arr_dst =
     (case cn of ((i, j, k), n) \<Rightarrow>
        (case Interp st arr_src sf sc cr i j k (n + scmp) of
           None \<Rightarrow> None
         | Some v \<Rightarrow>
             if arr_dst ((i, j, k), n + dcomp) \<noteq> None
             then Some (arr_dst(((i, j, k), n + dcomp) \<mapsto> v))
             else None))"

definition ParallelFor_range :: "warpx_dim \<Rightarrow> Box \<Rightarrow> int \<Rightarrow> ((int \<times> int \<times> int) \<times> int) list" where
  "ParallelFor_range D bx ncomp = concat (map (\<lambda>n. map (\<lambda>c. (c, n)) (cells D bx)) [0 .. ncomp - 1])"

definition Loop_boxes ::
  "warpx_dim \<Rightarrow> stencil \<Rightarrow> MultiFab \<Rightarrow> MultiFab \<Rightarrow> IntVect \<Rightarrow> IntVect \<Rightarrow> IntVect \<Rightarrow>
   int \<Rightarrow> int \<Rightarrow> int \<Rightarrow> IntVect \<Rightarrow> Array4 list option" where
  "Loop_boxes D st mf_dst mf_src sf sc cr dcomp scmp ncomp ngrowvect =
     for_each (\<lambda>mfi arrs.
        if mfi < length arrs \<and> mfi < length (fabs mf_src) then
          let bx = grow (boxArray mf_dst ! mfi) ngrowvect in
          map_option (\<lambda>arr_dst. arrs[mfi := arr_dst])
            (for_each (write_cell st (fabs mf_src ! mfi) sf sc cr dcomp scmp)
               (ParallelFor_range D bx ncomp) (arrs ! mfi))
        else None)
      [0 ..< length (boxArray mf_dst)] (fabs mf_dst)"

text \<open>
  \<^verbatim>\<open>Loop\<close> returns the error it stopped with, if any, and the destination as the call leaves
  it. After an out-of-bounds access nothing is known about the destination; the model
  then returns it as it was.
\<close>

definition Loop ::
  "warpx_dim \<Rightarrow> stencil \<Rightarrow> MultiFab \<Rightarrow> MultiFab \<Rightarrow> int \<Rightarrow> int \<Rightarrow> int \<Rightarrow> IntVect \<Rightarrow> IntVect \<Rightarrow>
   coarsen_error option \<times> MultiFab" where
  "Loop D st mf_dst mf_src dcomp scmp ncomp ngrowvect crse_ratio =
     (let stag_src = ixType mf_src;
          stag_dst = ixType mf_dst
      in
      if IntVect_gt D crse_ratio (IntVect_of 1) \<and> \<not> IntVect_eq D ngrowvect (IntVect_of 0)
      then (Some GuardFillWithCoarsening, mf_dst)
      else if \<not> IntVect_ge D (nGrowVect mf_src)
                  (IntVect_plus (IntVect_minus stag_dst stag_src) ngrowvect)
      then (Some NotEnoughGuardCells, mf_dst)
      else
        let sf = (case stag_src of (s0, s1, s2) \<Rightarrow>
                    (s0, if D = WARPX_DIM_1D_Z then 0 else s1, if AMREX_SPACEDIM D \<le> 2 then 0 else s2));
            sc = (case stag_dst of (s0, s1, s2) \<Rightarrow>
                    (s0, if D = WARPX_DIM_1D_Z then 0 else s1, if AMREX_SPACEDIM D \<le> 2 then 0 else s2));
            cr = (case crse_ratio of (r0, r1, r2) \<Rightarrow>
                    (r0, if D = WARPX_DIM_1D_Z then 1 else r1, if AMREX_SPACEDIM D \<le> 2 then 1 else r2))
        in
        case Loop_boxes D st mf_dst mf_src sf sc cr dcomp scmp ncomp ngrowvect of
          None \<Rightarrow> (Some OutOfBoundsAccess, mf_dst)
        | Some arrs \<Rightarrow> (None, mf_dst\<lparr>fabs := arrs\<rparr>))"

subsection \<open>CoarsenIO::Coarsen\<close>

text \<open>
  \<^verbatim>\<open>Coarsen\<close> calls into AMReX for the box arithmetic: \<^verbatim>\<open>amrex::convert\<close> moves the boxes of
  the source to the staggering of the destination, \<^verbatim>\<open>coarsenable\<close> tells whether they
  divide by the ratio, and \<^verbatim>\<open>coarsen\<close> divides them. These library functions are arguments
  of the model, together with the content of freshly allocated memory. Two box arrays of
  the same staggering are equal when their boxes agree on the axes of the build.
\<close>

record amrex_library =
  convert :: "Box list \<Rightarrow> IntVect \<Rightarrow> IntVect \<Rightarrow> Box list"
  coarsenable :: "Box list \<Rightarrow> IntVect \<Rightarrow> IntVect \<Rightarrow> bool"
  coarsen :: "Box list \<Rightarrow> IntVect \<Rightarrow> IntVect \<Rightarrow> Box list"
  uninitialised :: "(int \<times> int \<times> int) \<times> int \<Rightarrow> real"

definition Box_eq :: "warpx_dim \<Rightarrow> Box \<Rightarrow> Box \<Rightarrow> bool" where
  "Box_eq D a b = (IntVect_eq D (smallEnd a) (smallEnd b) \<and> IntVect_eq D (bigEnd a) (bigEnd b))"

definition BoxArray_eq :: "warpx_dim \<Rightarrow> Box list \<Rightarrow> Box list \<Rightarrow> bool" where
  "BoxArray_eq D as bs = list_all2 (Box_eq D) as bs"

text \<open>
  The constructor \<^verbatim>\<open>MultiFab(ba, dm, ncomp, ngrow)\<close>: one array per box, allocated on the box
  grown by the guard width, with \<open>ncomp\<close> components and arbitrary content.
\<close>

definition MultiFab_new ::
  "warpx_dim \<Rightarrow> amrex_library \<Rightarrow> Box list \<Rightarrow> IntVect \<Rightarrow> nat list \<Rightarrow> int \<Rightarrow> int \<Rightarrow> MultiFab" where
  "MultiFab_new D lib ba typ dm ncomp ngrow =
     \<lparr>boxArray = ba, ixType = typ, DistributionMap = dm, nGrowVect = IntVect_of ngrow, nComp = ncomp,
      fabs = map (\<lambda>bx cn. case cn of (c, n) \<Rightarrow>
                    if in_box D (grow bx (IntVect_of ngrow)) c \<and> 0 \<le> n \<and> n < ncomp
                    then Some (uninitialised lib cn) else None) ba\<rparr>"

text \<open>
  \<^verbatim>\<open>ParallelCopy(src, scomp, dcomp, ncomp)\<close> of AMReX, called without guard cells: every cell
  of a valid box of the destination that lies in a valid box of the source receives the
  value the source has there; the other cells of the destination are not touched.
\<close>

definition covering_box :: "warpx_dim \<Rightarrow> Box list \<Rightarrow> int \<times> int \<times> int \<Rightarrow> nat option" where
  "covering_box D ba c = List.find (\<lambda>t. in_box D (ba ! t) c) [0 ..< length ba]"

definition copy_cell ::
  "warpx_dim \<Rightarrow> MultiFab \<Rightarrow> int \<Rightarrow> int \<Rightarrow> (int \<times> int \<times> int) \<times> int \<Rightarrow> Array4 \<Rightarrow> Array4 option" where
  "copy_cell D mf_src scmp dcomp cn arr_dst =
     (case cn of (c, n) \<Rightarrow>
        (case covering_box D (boxArray mf_src) c of
           None \<Rightarrow> Some arr_dst
         | Some t \<Rightarrow>
             if t < length (fabs mf_src) then
               (case (fabs mf_src ! t) (c, n + scmp) of
                  None \<Rightarrow> None
                | Some v \<Rightarrow>
                    if arr_dst (c, n + dcomp) \<noteq> None then Some (arr_dst((c, n + dcomp) \<mapsto> v))
                    else None)
             else None))"

definition ParallelCopy ::
  "warpx_dim \<Rightarrow> MultiFab \<Rightarrow> MultiFab \<Rightarrow> int \<Rightarrow> int \<Rightarrow> int \<Rightarrow> MultiFab option" where
  "ParallelCopy D mf_dst mf_src scmp dcomp ncomp =
     map_option (\<lambda>arrs. mf_dst\<lparr>fabs := arrs\<rparr>)
       (for_each (\<lambda>mfi arrs.
           if mfi < length arrs then
             map_option (\<lambda>arr_dst. arrs[mfi := arr_dst])
               (for_each (copy_cell D mf_src scmp dcomp)
                  (ParallelFor_range D (boxArray mf_dst ! mfi) ncomp) (arrs ! mfi))
           else None)
         [0 ..< length (boxArray mf_dst)] (fabs mf_dst))"

text \<open>\<^verbatim>\<open>Coarsen\<close> with the guard cells to fill given per axis.\<close>

definition Coarsen ::
  "warpx_dim \<Rightarrow> amrex_library \<Rightarrow> stencil \<Rightarrow> MultiFab \<Rightarrow> MultiFab \<Rightarrow> int \<Rightarrow> int \<Rightarrow> int \<Rightarrow>
   IntVect \<Rightarrow> IntVect \<Rightarrow> coarsen_error option \<times> MultiFab" where
  "Coarsen D lib st mf_dst mf_src dcomp scmp ncomp ngrowvect crse_ratio =
     (let ba_tmp = convert lib (boxArray mf_src) (ixType mf_src) (ixType mf_dst) in
      if \<not> coarsenable lib ba_tmp (ixType mf_dst) crse_ratio then (Some NotCoarsenable, mf_dst)
      else
        let ba_tmp = coarsen lib ba_tmp (ixType mf_dst) crse_ratio in
        if BoxArray_eq D ba_tmp (boxArray mf_dst) \<and> DistributionMap mf_src = DistributionMap mf_dst
        then Loop D st mf_dst mf_src dcomp scmp ncomp ngrowvect crse_ratio
        else
          let mf_tmp = MultiFab_new D lib ba_tmp (ixType mf_dst) (DistributionMap mf_src) ncomp 0 in
          case Loop D st mf_tmp mf_src 0 scmp ncomp ngrowvect crse_ratio of
            (Some e, _) \<Rightarrow> (Some e, mf_dst)
          | (None, mf_tmp') \<Rightarrow>
              (case ParallelCopy D mf_dst mf_tmp' 0 dcomp ncomp of
                 None \<Rightarrow> (Some OutOfBoundsAccess, mf_dst)
               | Some mf_dst' \<Rightarrow> (None, mf_dst')))"

text \<open>\<^verbatim>\<open>Coarsen\<close> with one guard width for all axes.\<close>

definition Coarsen_ngrow ::
  "warpx_dim \<Rightarrow> amrex_library \<Rightarrow> stencil \<Rightarrow> MultiFab \<Rightarrow> MultiFab \<Rightarrow> int \<Rightarrow> int \<Rightarrow> int \<Rightarrow>
   int \<Rightarrow> IntVect \<Rightarrow> coarsen_error option \<times> MultiFab" where
  "Coarsen_ngrow D lib st mf_dst mf_src dcomp scmp ncomp ngrow crse_ratio =
     (let ngrowvect = IntVect_of ngrow in
      Coarsen D lib st mf_dst mf_src dcomp scmp ncomp ngrowvect crse_ratio)"

subsection \<open>Constant fields and covered cells\<close>

text \<open>
  An array holds \<open>V\<close> everywhere when every value stored in it, guard cells included, is
  \<open>V\<close>; a field does when each of its arrays does. The boxes \<^verbatim>\<open>ba_tmp\<close> that \<^verbatim>\<open>Coarsen\<close>
  computes from the source, and its test for the direct path, are named for use in
  statements.
\<close>

definition holds_everywhere :: "real \<Rightarrow> Array4 \<Rightarrow> bool" where
  "holds_everywhere V arr = (\<forall>key v. arr key = Some v \<longrightarrow> v = V)"

definition field_constant :: "real \<Rightarrow> MultiFab \<Rightarrow> bool" where
  "field_constant V mf = (\<forall>arr \<in> set (fabs mf). holds_everywhere V arr)"

definition coarsened_source :: "amrex_library \<Rightarrow> MultiFab \<Rightarrow> MultiFab \<Rightarrow> IntVect \<Rightarrow> Box list" where
  "coarsened_source lib mf_dst mf_src crse_ratio =
     coarsen lib (convert lib (boxArray mf_src) (ixType mf_src) (ixType mf_dst)) (ixType mf_dst) crse_ratio"

definition same_layout :: "warpx_dim \<Rightarrow> amrex_library \<Rightarrow> MultiFab \<Rightarrow> MultiFab \<Rightarrow> IntVect \<Rightarrow> bool" where
  "same_layout D lib mf_dst mf_src crse_ratio =
     (BoxArray_eq D (coarsened_source lib mf_dst mf_src crse_ratio) (boxArray mf_dst) \<and>
      DistributionMap mf_src = DistributionMap mf_dst)"

subsection \<open>A small coarsening problem\<close>

text \<open>
  A fine field of four cells along the first axis, all ones, and a coarse field of four
  cells, all zeros; both cell-centred, one component, no guard cells. With ratio 2 the
  fine field lies over the coarse cells 0 and 1. The stencil averages the two fine cells
  under a coarse cell. On cell-centred boxes the library leaves the boxes as they are when
  the staggering does not change, and coarsening divides both ends by the ratio.
\<close>

definition unit_box :: Box where
  "unit_box = \<lparr>smallEnd = (0, 0, 0), bigEnd = (3, 0, 0)\<rparr>"

definition fine_field :: MultiFab where
  "fine_field =
     \<lparr>boxArray = [unit_box], ixType = (0, 0, 0), DistributionMap = [0], nGrowVect = (0, 0, 0), nComp = 1,
      fabs = [\<lambda>cn. case cn of (c, n) \<Rightarrow> if in_box WARPX_DIM_1D_Z unit_box c \<and> n = 0 then Some 1 else None]\<rparr>"

definition coarse_field :: MultiFab where
  "coarse_field =
     \<lparr>boxArray = [unit_box], ixType = (0, 0, 0), DistributionMap = [0], nGrowVect = (0, 0, 0), nComp = 1,
      fabs = [\<lambda>cn. case cn of (c, n) \<Rightarrow> if in_box WARPX_DIM_1D_Z unit_box c \<and> n = 0 then Some 0 else None]\<rparr>"

definition pair_average :: stencil where
  "pair_average sf sc cr i j k = [((2 * i, j, k), 1 / 2), ((2 * i + 1, j, k), 1 / 2)]"

definition cell_centred_library :: amrex_library where
  "cell_centred_library =
     \<lparr>convert = (\<lambda>ba from to. ba),
      coarsenable = (\<lambda>ba typ ratio. True),
      coarsen = (\<lambda>ba typ ratio. case ratio of (r0, r1, r2) \<Rightarrow>
         map (\<lambda>bx. case (smallEnd bx, bigEnd bx) of ((l0, l1, l2), (h0, h1, h2)) \<Rightarrow>
                \<lparr>smallEnd = (l0 div r0, l1 div r1, l2 div r2),
                 bigEnd = (h0 div r0, h1 div r1, h2 div r2)\<rparr>) ba),
      uninitialised = (\<lambda>cn. 7)\<rparr>"

text \<open>
  A problem in the 2D build without coarsening: a cell-centred source of 2 x 2 cells, all
  ones, with no guard cell along the first axis and one along the second, and a
  destination on the same region that is nodal along the first axis, hence 3 x 2 points.
  The value at a node is the average of the two cells next to it along the first axis, so
  the source needs one guard cell along the first axis and none along the second.
\<close>

definition xz_box :: Box where
  "xz_box = \<lparr>smallEnd = (0, 0, 0), bigEnd = (1, 1, 0)\<rparr>"

definition xz_source :: MultiFab where
  "xz_source =
     \<lparr>boxArray = [xz_box], ixType = (0, 0, 0), DistributionMap = [0], nGrowVect = (0, 1, 0), nComp = 1,
      fabs = [\<lambda>cn. case cn of (c, n) \<Rightarrow>
                if in_box WARPX_DIM_XZ (grow xz_box (0, 1, 0)) c \<and> n = 0 then Some 1 else None]\<rparr>"

definition xz_destination :: MultiFab where
  "xz_destination =
     \<lparr>boxArray = [\<lparr>smallEnd = (0, 0, 0), bigEnd = (2, 1, 0)\<rparr>], ixType = (1, 0, 0),
      DistributionMap = [0], nGrowVect = (0, 0, 0), nComp = 1,
      fabs = [\<lambda>cn. case cn of (c, n) \<Rightarrow>
                if in_box WARPX_DIM_XZ \<lparr>smallEnd = (0, 0, 0), bigEnd = (2, 1, 0)\<rparr> c \<and> n = 0
                then Some 0 else None]\<rparr>"

definition nodal_average :: stencil where
  "nodal_average sf sc cr i j k = [((i - 1, j, k), 1 / 2), ((i, j, k), 1 / 2)]"

text \<open>The same source with one guard cell along each axis.\<close>

definition xz_source_guarded :: MultiFab where
  "xz_source_guarded =
     xz_source\<lparr>nGrowVect := (1, 1, 0),
       fabs := [\<lambda>cn. case cn of (c, n) \<Rightarrow>
                  if in_box WARPX_DIM_XZ (grow xz_box (1, 1, 0)) c \<and> n = 0 then Some 1 else None]\<rparr>"

text \<open>A fine field of eight cells, all ones: with ratio 2 it lies over the whole coarse field.\<close>

definition wide_fine_field :: MultiFab where
  "wide_fine_field =
     \<lparr>boxArray = [\<lparr>smallEnd = (0, 0, 0), bigEnd = (7, 0, 0)\<rparr>], ixType = (0, 0, 0),
      DistributionMap = [0], nGrowVect = (0, 0, 0), nComp = 1,
      fabs = [\<lambda>cn. case cn of (c, n) \<Rightarrow>
                if in_box WARPX_DIM_1D_Z \<lparr>smallEnd = (0, 0, 0), bigEnd = (7, 0, 0)\<rparr> c \<and> n = 0
                then Some 1 else None]\<rparr>"

section \<open>Spectral solver: cached coefficients (PsatdAlgorithmRZ)\<close>

text \<open>
  The class declaration gives the state of the solver: the flag
  \<^verbatim>\<open>coefficients_initialized\<close>, the time step \<^verbatim>\<open>m_dt\<close> ("saved to use in
  InitializeSpectralCoefficients"), five options and seven arrays of real coefficients, one
  value per spectral mode. The arrays are grouped in one record here. The field data in
  spectral space carries the discretised k-vectors of its layout and the values of the
  fields per mode.
\<close>

record coefficient_set =
  C_coef :: "real list"
  S_ck_coef :: "real list"
  X1_coef :: "real list"
  X2_coef :: "real list"
  X3_coef :: "real list"
  X5_coef :: "real list"
  X6_coef :: "real list"

record PsatdAlgorithmRZ =
  coefficients_initialized :: bool
  m_dt :: real
  m_update_with_rho :: bool
  m_time_averaging :: bool
  m_do_multi_J :: bool
  m_dive_cleaning :: bool
  m_divb_cleaning :: bool
  coefficients :: coefficient_set

record SpectralFieldDataRZ =
  k_vectors :: "real list"
  field_values :: "complex list"

text \<open>
  The formula of the coefficients and the update operator of the solver are in a source
  file that is not at hand and are arguments of the model. The spec says that the
  coefficients are "derived once from the discretized k-vectors, the timestep, and the
  interpolation order" (the order is fixed with the formula) and that the solver applies
  "per-mode update operators built from precomputed coefficients"; the operator may also
  read the five options.
\<close>

type_synonym coefficient_formula = "real \<Rightarrow> real list \<Rightarrow> coefficient_set"

type_synonym psatd_options = "bool \<times> bool \<times> bool \<times> bool \<times> bool"

type_synonym update_operator = "psatd_options \<Rightarrow> coefficient_set \<Rightarrow> complex list \<Rightarrow> complex list"

definition options :: "PsatdAlgorithmRZ \<Rightarrow> psatd_options" where
  "options solver =
     (m_update_with_rho solver, m_time_averaging solver, m_do_multi_J solver,
      m_dive_cleaning solver, m_divb_cleaning solver)"

text \<open>
  Modelled from the spec: the body of the constructor of \<^verbatim>\<open>PsatdAlgorithmRZ\<close> is not among
  the sources at hand; only the class declaration is. The spec says that the coefficients
  are "lazily computed on first use per solver instance": the constructor stores the time
  step and the options, marks the coefficients as not built and leaves the arrays with
  arbitrary content.
\<close>

definition PsatdAlgorithmRZ_new ::
  "real \<Rightarrow> bool \<Rightarrow> bool \<Rightarrow> bool \<Rightarrow> bool \<Rightarrow> bool \<Rightarrow> coefficient_set \<Rightarrow> PsatdAlgorithmRZ" where
  "PsatdAlgorithmRZ_new dt_step update_with_rho time_averaging do_multi_J dive_cleaning divb_cleaning
       unset =
     \<lparr>coefficients_initialized = False, m_dt = dt_step, m_update_with_rho = update_with_rho,
      m_time_averaging = time_averaging, m_do_multi_J = do_multi_J,
      m_dive_cleaning = dive_cleaning, m_divb_cleaning = divb_cleaning, coefficients = unset\<rparr>"

text \<open>
  Modelled from the spec: the body of \<^verbatim>\<open>InitializeSpectralCoefficients\<close> is not among the
  sources at hand. By the spec the coefficients are "derived once from the discretized
  k-vectors, the timestep, and the interpolation order"; the time step is the saved
  \<^verbatim>\<open>m_dt\<close>, the k-vectors are those of the field data passed in.
\<close>

definition InitializeSpectralCoefficients ::
  "coefficient_formula \<Rightarrow> SpectralFieldDataRZ \<Rightarrow> PsatdAlgorithmRZ \<Rightarrow> PsatdAlgorithmRZ" where
  "InitializeSpectralCoefficients formula f solver =
     solver\<lparr>coefficients := formula (m_dt solver) (k_vectors f)\<rparr>"

text \<open>
  Modelled from the spec: the body of \<^verbatim>\<open>pushSpectralFields\<close> is not among the sources at
  hand. By the spec the coefficients are "lazily computed on first use per solver instance
  and cached for the instance's lifetime", and the push applies "per-mode update operators
  built from precomputed coefficients": the first push builds the coefficients and sets
  the flag, every push applies the update operator with the options and the coefficients
  the solver then has. The push returns the solver and the field data as the call leaves
  them.
\<close>

definition pushSpectralFields ::
  "coefficient_formula \<Rightarrow> update_operator \<Rightarrow> PsatdAlgorithmRZ \<Rightarrow> SpectralFieldDataRZ \<Rightarrow>
   PsatdAlgorithmRZ \<times> SpectralFieldDataRZ" where
  "pushSpectralFields formula update solver f =
     (let solver' =
            (if \<not> coefficients_initialized solver
             then (InitializeSpectralCoefficients formula f solver)\<lparr>coefficients_initialized := True\<rparr>
             else solver)
      in (solver', f\<lparr>field_values := update (options solver') (coefficients solver') (field_values f)\<rparr>))"

text \<open>A solver after a sequence of earlier pushes, each on its own field data.\<close>

fun after_pushes ::
  "coefficient_formula \<Rightarrow> update_operator \<Rightarrow> PsatdAlgorithmRZ \<Rightarrow> SpectralFieldDataRZ list \<Rightarrow>
   PsatdAlgorithmRZ" where
  "after_pushes formula update solver [] = solver"
| "after_pushes formula update solver (g # gs) =
     after_pushes formula update (fst (pushSpectralFields formula update solver g)) gs"

text \<open>A formula and an update operator small enough to run, and two field states on one layout.\<close>

definition toy_formula :: coefficient_formula where
  "toy_formula dt ks =
     \<lparr>C_coef = map (\<lambda>k. 1 - k * dt) ks, S_ck_coef = map (\<lambda>k. dt) ks, X1_coef = map (\<lambda>k. k) ks,
      X2_coef = ks, X3_coef = ks, X5_coef = ks, X6_coef = ks\<rparr>"

definition toy_update :: update_operator where
  "toy_update opts cs zs = map2 (\<lambda>c z. of_real c * z) (C_coef cs) zs"

definition unset_coefficients :: coefficient_set where
  "unset_coefficients =
     \<lparr>C_coef = [], S_ck_coef = [], X1_coef = [], X2_coef = [], X3_coef = [], X5_coef = [], X6_coef = []\<rparr>"

definition other_coefficients :: coefficient_set where
  "other_coefficients =
     \<lparr>C_coef = [9, 9], S_ck_coef = [], X1_coef = [], X2_coef = [], X3_coef = [], X5_coef = [], X6_coef = []\<rparr>"

definition earlier_state :: SpectralFieldDataRZ where
  "earlier_state = \<lparr>k_vectors = [1, 2], field_values = [3, 5]\<rparr>"

definition current_state :: SpectralFieldDataRZ where
  "current_state = \<lparr>k_vectors = [1, 2], field_values = [4, 6]\<rparr>"

section \<open>Charge deposition (WarpXParticleContainer::DepositCharge)\<close>

text \<open>
  A particle has a position, in units of the cell size, and a weight. A shape function
  gives, for a position, the cells a particle touches with the fraction of its charge that
  each receives. The mesh holds the charge per cell, that is the charge density of the
  class header times the volume of a cell, in Cartesian geometry. Reals are the
  mathematical reals, so a sum does not depend on its order.
\<close>

type_synonym cell = "int \<times> int \<times> int"

type_synonym shape_function = "real \<times> real \<times> real \<Rightarrow> (cell \<times> real) list"

record particle =
  position :: "real \<times> real \<times> real"
  weight :: real

definition add_to_cell :: "cell \<Rightarrow> real \<Rightarrow> (cell \<Rightarrow> real) \<Rightarrow> (cell \<Rightarrow> real)" where
  "add_to_cell c v rho = rho(c := rho c + v)"

text \<open>
  Modelled from the spec: the deposition kernels are in source files that are not at hand.
  The spec says that deposition scatters "each particle's charge/current contribution onto
  the surrounding mesh cells using a shape function of configurable order
  (nearest-grid-point through high-order)": a particle of weight \<open>w\<close> of a species of charge
  \<open>q\<close> adds \<open>q * w\<close> times the fraction of the shape function to each cell it touches.
\<close>

definition deposit_particle :: "real \<Rightarrow> shape_function \<Rightarrow> particle \<Rightarrow> (cell \<Rightarrow> real) \<Rightarrow> (cell \<Rightarrow> real)" where
  "deposit_particle q shape p rho =
     fold (\<lambda>cs. add_to_cell (fst cs) (q * weight p * snd cs)) (shape (position p)) rho"

text \<open>
  Modelled from the spec: the class header declares \<^verbatim>\<open>DepositCharge\<close>; its body is in a
  source file that is not at hand. Of its arguments the model keeps the mesh and the flag
  \<^verbatim>\<open>reset\<close> ("if true, reset all values of rho to zero"), for one level and one component;
  every particle of the species is deposited in turn.
\<close>

definition DepositCharge ::
  "real \<Rightarrow> shape_function \<Rightarrow> particle list \<Rightarrow> bool \<Rightarrow> (cell \<Rightarrow> real) \<Rightarrow> (cell \<Rightarrow> real)" where
  "DepositCharge q shape particles reset rho =
     fold (deposit_particle q shape) particles (if reset then (\<lambda>c. 0) else rho)"

text \<open>
  Modelled from the spec: the class header declares \<^verbatim>\<open>sumParticleCharge\<close>, which "returns
  the total charge for all the particles in this ParticleContainer"; its body is in a
  source file that is not at hand. The spec speaks of "the sum of particle weights times
  their charge".
\<close>

definition sumParticleCharge :: "real \<Rightarrow> particle list \<Rightarrow> real" where
  "sumParticleCharge q particles = sum_list (map (\<lambda>p. weight p * q) particles)"

text \<open>The sum of a mesh quantity over the cells of the mesh, guard cells included.\<close>

definition total_on_mesh :: "cell list \<Rightarrow> (cell \<Rightarrow> real) \<Rightarrow> real" where
  "total_on_mesh mesh rho = sum_list (map rho mesh)"

text \<open>
  Modelled from the spec: the shape functions are in source files that are not at hand.
  The spec names the orders "nearest-grid-point through high-order" and says that a
  particle deposits "into exactly the one (or up to 8, for linear shape) enclosing
  cell(s)". The two lowest orders, per axis: the nearest grid point takes the whole charge;
  the linear shape splits it between the two neighbouring points in proportion to the
  distance. In three dimensions the fractions of the axes multiply.
\<close>

definition nearest_grid_point :: "real \<Rightarrow> (int \<times> real) list" where
  "nearest_grid_point x = [(\<lfloor>x + 1 / 2\<rfloor>, 1)]"

definition linear_shape :: "real \<Rightarrow> (int \<times> real) list" where
  "linear_shape x = [(\<lfloor>x\<rfloor>, 1 - (x - of_int \<lfloor>x\<rfloor>)), (\<lfloor>x\<rfloor> + 1, x - of_int \<lfloor>x\<rfloor>)]"

definition shape_3d :: "(real \<Rightarrow> (int \<times> real) list) \<Rightarrow> shape_function" where
  "shape_3d s pos =
     (case pos of (x, y, z) \<Rightarrow>
        concat (map (\<lambda>kz. concat (map (\<lambda>jy. map (\<lambda>ix. ((fst ix, fst jy, fst kz), snd ix * snd jy * snd kz))
                                                  (s x)) (s y))) (s z)))"

text \<open>
  Modelled from the spec: a particle of weight 1 and charge \<open>q\<close> deposits into its
  "enclosing cell(s) summing to q", that is, the fractions of a shape function sum to one
  at every position.
\<close>

definition partition_of_unity :: "shape_function \<Rightarrow> bool" where
  "partition_of_unity shape = (\<forall>pos. sum_list (map snd (shape pos)) = 1)"

text \<open>
  Three particles on a mesh of 3 x 3 x 3 cells: one inside a cell, one exactly on a cell
  face, one exactly on a grid point.
\<close>

definition example_mesh :: "cell list" where
  "example_mesh = concat (map (\<lambda>k. concat (map (\<lambda>j. map (\<lambda>i. (i, j, k)) [0 .. 2]) [0 .. 2])) [0 .. 2])"

definition example_particles :: "particle list" where
  "example_particles =
     [\<lparr>position = (1 / 4, 1 / 2, 3 / 4), weight = 2\<rparr>,
      \<lparr>position = (1, 1 / 2, 1 / 2), weight = 3\<rparr>,
      \<lparr>position = (1, 1, 1), weight = 5\<rparr>]"

section \<open>Loops\<close>

lemma for_each_invariant:
  assumes "\<And>x s s'. P s \<Longrightarrow> body x s = Some s' \<Longrightarrow> P s'"
  shows "P s \<Longrightarrow> for_each body xs s = Some s' \<Longrightarrow> P s'"
  using assms by (induction xs arbitrary: s) (auto split: option.splits)

lemma for_each_establish:
  assumes est: "\<And>x s s'. body x s = Some s' \<Longrightarrow> R x s'"
    and pres: "\<And>x y s s'. R x s \<Longrightarrow> body y s = Some s' \<Longrightarrow> R x s'"
  shows "for_each body xs s = Some s' \<Longrightarrow> x \<in> set xs \<Longrightarrow> R x s'"
proof (induction xs arbitrary: s)
  case Nil
  then show ?case by simp
next
  case (Cons y ys)
  from Cons.prems(1) obtain s1 where b: "body y s = Some s1" and r: "for_each body ys s1 = Some s'"
    by (auto split: option.splits)
  show ?case
  proof (cases "x \<in> set ys")
    case True
    with Cons.IH r show ?thesis by blast
  next
    case False
    with Cons.prems(2) have "x = y" by simp
    with b have "R x s1" by (simp add: est)
    with r show ?thesis
      using for_each_invariant [of "R x" body s1 ys s'] pres by blast
  qed
qed


section \<open>Properties of the position push\<close>

lemma inv_gamma_formula:
  "1 / sqrt (1 + (ux * ux + uy * uy + uz * uz) * inv_c2 c) =
   1 / sqrt (1 + (ux\<^sup>2 + uy\<^sup>2 + uz\<^sup>2) / c\<^sup>2)"
  by (simp add: inv_c2_def power2_eq_square)

text \<open>
  Claim C3. With \<open>g = 1 / sqrt (1 + (ux\<^sup>2 + uy\<^sup>2 + uz\<^sup>2) / c\<^sup>2)\<close> the push adds \<open>u * g * dt\<close> to
  the position on every axis the build pushes and leaves the other axes alone: only \<open>z\<close> in
  the 1D build, \<open>x\<close> and \<open>z\<close> in the 2D Cartesian build, all three axes in the 3D build and in
  the RZ build (which pushes particles in 3D).
\<close>

theorem UpdatePosition_formula:
  "UpdatePosition D c (x, y, z) ux uy uz dt =
     (let g = 1 / sqrt (1 + (ux\<^sup>2 + uy\<^sup>2 + uz\<^sup>2) / c\<^sup>2) in
      case D of
        WARPX_DIM_1D_Z \<Rightarrow> (x, y, z + uz * g * dt)
      | WARPX_DIM_XZ \<Rightarrow> (x + ux * g * dt, y, z + uz * g * dt)
      | WARPX_DIM_RZ \<Rightarrow> (x + ux * g * dt, y + uy * g * dt, z + uz * g * dt)
      | WARPX_DIM_3D \<Rightarrow> (x + ux * g * dt, y + uy * g * dt, z + uz * g * dt))"
  unfolding UpdatePosition_def inv_gamma_formula
  by (cases D) (simp_all add: Let_def)

text \<open>
  Claim C4. A particle whose three momentum components are zero keeps its position, for
  every time step and in every build.
\<close>

theorem UpdatePosition_zero_momentum:
  "UpdatePosition D c (x, y, z) 0 0 0 dt = (x, y, z)"
  by (simp add: UpdatePosition_def Let_def)

section \<open>Properties of the custom density injector\<close>

lemma copy_params_not_too_many: "copy_params i v p \<noteq> Inl TooManyParameters"
  by (induction i v p rule: copy_params.induct) simp_all

lemma copy_params_fits:
  "i + length v \<le> length p \<Longrightarrow> \<exists>p'. copy_params i v p = Inr p'"
  by (induction i v p rule: copy_params.induct) simp_all

lemma copy_params_overflow:
  "i \<le> length p \<Longrightarrow> length p < i + length v \<Longrightarrow> copy_params i v p = Inl WriteOutOfBounds"
  by (induction i v p rule: copy_params.induct) auto

text \<open>
  Seven parameters are not rejected with the documented message: the size check has
  already passed on the empty vector, and the copy loop then writes past the sixth slot.
\<close>

lemma InjectorDensityCustom_seven_parameters:
  "InjectorDensityCustom (Map.empty((''electrons'', ''custom_profile_params'') \<mapsto> [1, 2, 3, 4, 5, 6, 7]))
     ''electrons'' = Inl WriteOutOfBounds"
  by (simp add: InjectorDensityCustom_def getArrWithParser_def)

lemma InjectorDensityCustom_long_input:
  assumes "deck (species_name, ''custom_profile_params'') = Some v" and "6 < length v"
  shows "InjectorDensityCustom deck species_name = Inl WriteOutOfBounds"
  using assms copy_params_overflow [of 0 "replicate 6 None" v]
  by (simp add: InjectorDensityCustom_def getArrWithParser_def)

text \<open>
  Claim C8. The size check of the constructor runs on the local vector while it is still
  empty, so it passes for every input deck and every species: the constructor never ends
  with the error "Too many parameters", whatever the number of values supplied.
\<close>

theorem InjectorDensityCustom_never_too_many:
  "InjectorDensityCustom deck species_name \<noteq> Inl TooManyParameters"
  by (simp add: InjectorDensityCustom_def getArrWithParser_def copy_params_not_too_many
      split: option.splits)

section \<open>Properties of the attribute registry\<close>

lemma AddRealComp_present:
  "particle_comps pc name = Some k \<Longrightarrow>
   AddRealComp nattribs name comm pc =
     pc\<lparr>printed := printed pc @ [name @ '' already exists in particle_comps, not adding.'']\<rparr>"
  by (simp add: AddRealComp_def)

lemma AddIntComp_present:
  "particle_icomps pc name = Some k \<Longrightarrow>
   AddIntComp name comm pc =
     pc\<lparr>printed := printed pc @ [name @ '' already exists in particle_icomps, not adding.'']\<rparr>"
  by (simp add: AddIntComp_def)

lemma AddRealComp_registers: "name \<in> dom (particle_comps (AddRealComp nattribs name comm pc))"
  by (auto simp: AddRealComp_def base_AddRealComp_def Let_def split: option.splits)

lemma AddIntComp_registers: "name \<in> dom (particle_icomps (AddIntComp name comm pc))"
  by (auto simp: AddIntComp_def base_AddIntComp_def Let_def split: option.splits)

lemma registry_printed [simp]: "registry nattribs (pc\<lparr>printed := msgs\<rparr>) = registry nattribs pc"
  by (simp add: registry_def NumRealComps_def NumIntComps_def)

lemma AddRealComp_registry_present:
  "name \<in> dom (particle_comps pc) \<Longrightarrow> registry nattribs (AddRealComp nattribs name comm pc) = registry nattribs pc"
  by (auto simp: AddRealComp_present)

lemma AddIntComp_registry_present:
  "name \<in> dom (particle_icomps pc) \<Longrightarrow> registry nattribs (AddIntComp name comm pc) = registry nattribs pc"
  by (auto simp: AddIntComp_present)

text \<open>
  Claim C9. Registering a name that the registry already holds changes neither the four
  maps nor the two column counts, for real and for integer attributes alike; hence a second
  registration of any name, right after the first, adds no column.
\<close>

theorem AddComp_idempotent:
  "(name \<in> dom (particle_comps pc) \<longrightarrow>
      registry nattribs (AddRealComp nattribs name comm pc) = registry nattribs pc) \<and>
   (name \<in> dom (particle_icomps pc) \<longrightarrow>
      registry nattribs (AddIntComp name comm pc) = registry nattribs pc) \<and>
   registry nattribs (AddRealComp nattribs name comm' (AddRealComp nattribs name comm pc)) =
     registry nattribs (AddRealComp nattribs name comm pc) \<and>
   registry nattribs (AddIntComp name comm' (AddIntComp name comm pc)) =
     registry nattribs (AddIntComp name comm pc)"
  by (intro conjI impI)
    (simp_all add: AddRealComp_registry_present AddIntComp_registry_present
       AddRealComp_registers AddIntComp_registers)

theorem AddComp_idempotent_witness:
  "''ionization_level'' \<in> dom (particle_comps example_container) \<and>
   registry 4 (AddRealComp 4 ''ionization_level'' True example_container) = registry 4 example_container \<and>
   ''ionization_level'' \<in> dom (particle_icomps example_container) \<and>
   registry 4 (AddIntComp ''ionization_level'' True example_container) = registry 4 example_container \<and>
   NumRealComps 4 (AddRealComp 4 ''ionization_level'' True example_container) = 5"
proof -
  have r: "''ionization_level'' \<in> dom (particle_comps example_container)"
    by (simp add: example_container_def)
  have i: "''ionization_level'' \<in> dom (particle_icomps example_container)"
    by (simp add: example_container_def)
  have n: "NumRealComps 4 (AddRealComp 4 ''ionization_level'' True example_container) = 5"
    by (simp add: example_container_def AddRealComp_def NumRealComps_def)
  from r i n
    AddComp_idempotent [of "''ionization_level''" example_container 4 True True]
  show ?thesis by blast
qed

section \<open>Properties of the back-transformed diagnostics\<close>

lemma vec_set_keeps:
  "vec_set xs j v = Some ys \<Longrightarrow> vec_at xs i = Some a \<Longrightarrow> j \<noteq> i \<or> v = a \<Longrightarrow> vec_at ys i = Some a"
  by (auto simp: vec_set_def vec_at_def nth_list_update split: if_splits)

lemma InitializeBufferData_full:
  "InitializeBufferData j d = Some d' \<Longrightarrow> m_snapshot_full d' = m_snapshot_full d"
  by (auto simp: InitializeBufferData_def split: option.splits)

lemma UpdateBufferData_full:
  "UpdateBufferData zs k d = Some d' \<Longrightarrow> m_snapshot_full d' = m_snapshot_full d"
  unfolding UpdateBufferData_def
  by (erule for_each_invariant [where P = "\<lambda>x. m_snapshot_full x = m_snapshot_full d", rotated 2])
     (auto split: option.splits if_splits)

lemma SetSnapshotFullStatus_full:
  "SetSnapshotFullStatus j d = Some d' \<Longrightarrow> vec_at (m_snapshot_full d) i = Some 1 \<Longrightarrow>
   vec_at (m_snapshot_full d') i = Some 1"
  by (auto simp: SetSnapshotFullStatus_def split: option.splits if_splits dest: vec_set_keeps)

lemma Flush_full:
  "keep_snapshot_status H \<Longrightarrow> Flush H j d = Some d' \<Longrightarrow>
   vec_at (m_snapshot_full d) i = Some 1 \<Longrightarrow> vec_at (m_snapshot_full d') i = Some 1"
  unfolding keep_snapshot_status_def Flush_def
  by (auto split: option.splits dest!: SetSnapshotFullStatus_full [where i = i])

lemma perform_full:
  "keep_snapshot_status H \<Longrightarrow> vec_at (m_snapshot_full d) i = Some 1 \<Longrightarrow>
   perform H op d = Some d' \<Longrightarrow> vec_at (m_snapshot_full d') i = Some 1"
  by (cases op)
     (auto dest: InitializeBufferData_full UpdateBufferData_full SetSnapshotFullStatus_full Flush_full)

lemma run_full:
  "keep_snapshot_status H \<Longrightarrow> vec_at (m_snapshot_full d) i = Some 1 \<Longrightarrow>
   run H ops d = Some d' \<Longrightarrow> vec_at (m_snapshot_full d') i = Some 1"
  unfolding run_def
  by (rule for_each_invariant [where P = "\<lambda>d. vec_at (m_snapshot_full d) i = Some 1"])
     (auto dest: perform_full)

lemma DoDump_full:
  "vec_at (m_snapshot_full d) i = Some 1 \<Longrightarrow> DoDump H d step i force = Some False"
  by (simp add: DoDump_def)

lemma counter_helpers_keep_status: "keep_snapshot_status counter_helpers"
  by (auto simp: keep_snapshot_status_def counter_helpers_def split: option.splits)

lemma DoDump_neg: "step < 0 \<Longrightarrow> DoDump H d step i force = Some False"
  by (simp add: DoDump_def)

text \<open>
  The initialiser clears every status entry. Run on an object in use it would also clear
  the entry of a complete snapshot, which is why it is the start of the object's life and
  not one of the operations on it.
\<close>

lemma DerivedInitData_clears:
  "DerivedInitData example_btd =
     Some (example_btd\<lparr>m_snapshot_full := [0, 0], m_lastValidZSlice := [0, 0]\<rparr>)"
  by (simp add: DerivedInitData_def example_btd_def resize_def vec_set_def upto.simps Let_def)

text \<open>
  Claim C10. Let the two counter helpers of the class header leave the status vector
  alone. Once the entry of a snapshot in \<^verbatim>\<open>m_snapshot_full\<close> is 1, it is still 1 after every
  sequence of operations on the initialised object, and in every such state \<^verbatim>\<open>DoDump\<close>
  answers false for that snapshot, whatever the step and the flush flag. For a negative
  step \<^verbatim>\<open>DoDump\<close> answers false for every snapshot index.
\<close>

theorem completed_snapshot_never_dumped:
  "(keep_snapshot_status H \<longrightarrow> vec_at (m_snapshot_full d) i = Some 1 \<longrightarrow> run H ops d = Some d' \<longrightarrow>
      vec_at (m_snapshot_full d') i = Some 1 \<and> DoDump H d' step i force_flush = Some False) \<and>
   (step < 0 \<longrightarrow> DoDump H d step j force_flush = Some False)"
  using run_full [of H d i ops d'] DoDump_full [of d' i H step force_flush]
    DoDump_neg [of step H d j force_flush]
  by blast

theorem completed_snapshot_never_dumped_witness:
  "vec_at (m_snapshot_full example_btd) 1 = Some 1 \<and>
   run counter_helpers example_ops example_btd = Some example_btd_after \<and>
   vec_at (m_snapshot_full example_btd_after) 1 = Some 1 \<and>
   DoDump counter_helpers example_btd_after 7 1 True = Some False \<and>
   DoDump counter_helpers example_btd (- 1) 0 True = Some False"
proof -
  have full: "vec_at (m_snapshot_full example_btd) 1 = Some 1"
    by (simp add: example_btd_def vec_at_def)
  have ran: "run counter_helpers example_ops example_btd = Some example_btd_after"
    by (simp add: run_def example_ops_def example_btd_def example_btd_after_def counter_helpers_def
        UpdateBufferData_def Flush_def SetSnapshotFullStatus_def InitializeBufferData_def
        vec_at_def vec_set_def upto.simps)
  from full ran counter_helpers_keep_status
    completed_snapshot_never_dumped
      [of counter_helpers example_btd 1 example_ops example_btd_after 7 True 0]
    completed_snapshot_never_dumped
      [of counter_helpers example_btd 1 example_ops example_btd_after "- 1" True 0]
  show ?thesis by simp
qed

section \<open>Properties of the coarsening utility: the configuration checks\<close>

lemma IntVect_gt_one_iff:
  "\<forall>r \<in> set (components D crse_ratio). 1 \<le> r \<Longrightarrow>
   IntVect_gt D crse_ratio (IntVect_of 1) \<longleftrightarrow> (\<exists>r \<in> set (components D crse_ratio). 1 < r)"
  by (cases D; cases crse_ratio) (auto simp: IntVect_gt_def IntVect_of_def)

lemma IntVect_eq_zero_iff:
  "IntVect_eq D ng (IntVect_of 0) \<longleftrightarrow> (\<forall>g \<in> set (components D ng). g = 0)"
  by (cases D; cases ng) (auto simp: IntVect_of_def)

lemma IntVect_all_less_lt:
  "list_all2 (<) (components D a) (components D b) \<Longrightarrow> IntVect_lt D a b"
  by (cases D; cases a; cases b) auto

lemma Loop_guard_fill:
  assumes "IntVect_gt D crse_ratio (IntVect_of 1)" and "\<not> IntVect_eq D ngrowvect (IntVect_of 0)"
  shows "Loop D st mf_dst mf_src dcomp scmp ncomp ngrowvect crse_ratio =
           (Some GuardFillWithCoarsening, mf_dst)"
  using assms by (simp add: Loop_def)

lemma Loop_not_enough:
  assumes "\<not> (IntVect_gt D crse_ratio (IntVect_of 1) \<and> \<not> IntVect_eq D ngrowvect (IntVect_of 0))"
    and "IntVect_lt D (nGrowVect mf_src)
           (IntVect_plus (IntVect_minus (ixType mf_dst) (ixType mf_src)) ngrowvect)"
  shows "Loop D st mf_dst mf_src dcomp scmp ncomp ngrowvect crse_ratio =
           (Some NotEnoughGuardCells, mf_dst)"
  using assms by (auto simp add: Loop_def IntVect_ge_def)

text \<open>
  When \<^verbatim>\<open>Loop\<close> stops at one of its checks for every destination of the staggering at hand,
  \<^verbatim>\<open>Coarsen\<close> stops too, on either of its paths, and leaves its destination as it was.
\<close>

lemma Coarsen_Loop_error:
  assumes "\<And>d dc. ixType d = ixType mf_dst \<Longrightarrow>
             Loop D st d mf_src dc scmp ncomp ngrowvect crse_ratio = (Some e, d)"
  shows "Coarsen D lib st mf_dst mf_src dcomp scmp ncomp ngrowvect crse_ratio =
     (Some (if coarsenable lib (convert lib (boxArray mf_src) (ixType mf_src) (ixType mf_dst))
                 (ixType mf_dst) crse_ratio
            then e else NotCoarsenable), mf_dst)"
  by (simp add: Coarsen_def Let_def assms MultiFab_new_def)

text \<open>
  Claim C1. Let the coarsening ratio be at least 1 on every axis of the build, as a ratio
  is, and greater than 1 on some axis, and let the guard-cell count to fill be nonzero on
  some axis. Then \<^verbatim>\<open>Loop\<close> stops with the error about filling guard cells while coarsening,
  and so does \<^verbatim>\<open>Coarsen\<close>, with either signature, unless it has already stopped because the
  boxes are not coarsenable. No path returns normally and the destination is as it was.
\<close>

theorem guard_fill_with_coarsening_fails:
  assumes "\<forall>r \<in> set (components D crse_ratio). 1 \<le> r"
    and "\<exists>r \<in> set (components D crse_ratio). 1 < r"
    and "\<exists>g \<in> set (components D ngrowvect). g \<noteq> 0"
  shows "Loop D st mf_dst mf_src dcomp scmp ncomp ngrowvect crse_ratio =
           (Some GuardFillWithCoarsening, mf_dst) \<and>
         Coarsen D lib st mf_dst mf_src dcomp scmp ncomp ngrowvect crse_ratio =
           (Some (if coarsenable lib (convert lib (boxArray mf_src) (ixType mf_src) (ixType mf_dst))
                       (ixType mf_dst) crse_ratio
                  then GuardFillWithCoarsening else NotCoarsenable), mf_dst) \<and>
         (\<forall>ngrow. ngrowvect = IntVect_of ngrow \<longrightarrow>
            Coarsen_ngrow D lib st mf_dst mf_src dcomp scmp ncomp ngrow crse_ratio =
              (Some (if coarsenable lib (convert lib (boxArray mf_src) (ixType mf_src) (ixType mf_dst))
                          (ixType mf_dst) crse_ratio
                     then GuardFillWithCoarsening else NotCoarsenable), mf_dst))"
proof -
  have gt: "IntVect_gt D crse_ratio (IntVect_of 1)"
    using assms(1,2) by (simp add: IntVect_gt_one_iff)
  have ne: "\<not> IntVect_eq D ngrowvect (IntVect_of 0)"
    using assms(3) by (simp add: IntVect_eq_zero_iff)
  have l: "Loop D st d mf_src dc scmp ncomp ngrowvect crse_ratio = (Some GuardFillWithCoarsening, d)"
    for d dc
    using gt ne by (rule Loop_guard_fill)
  have c: "Coarsen D lib st mf_dst mf_src dcomp scmp ncomp ngrowvect crse_ratio =
           (Some (if coarsenable lib (convert lib (boxArray mf_src) (ixType mf_src) (ixType mf_dst))
                       (ixType mf_dst) crse_ratio
                  then GuardFillWithCoarsening else NotCoarsenable), mf_dst)"
    by (rule Coarsen_Loop_error) (rule l)
  have n: "Coarsen_ngrow D lib st mf_dst mf_src dcomp scmp ncomp ngrow crse_ratio =
             Coarsen D lib st mf_dst mf_src dcomp scmp ncomp ngrowvect crse_ratio"
    if "ngrowvect = IntVect_of ngrow" for ngrow
    using that by (simp add: Coarsen_ngrow_def)
  show ?thesis
    using l [of mf_dst dcomp] c n by metis
qed

theorem guard_fill_with_coarsening_fails_witness:
  "Loop WARPX_DIM_3D pair_average coarse_field fine_field 0 0 1 (1, 1, 1) (2, 1, 1) =
     (Some GuardFillWithCoarsening, coarse_field) \<and>
   Coarsen WARPX_DIM_3D cell_centred_library pair_average coarse_field fine_field 0 0 1 (1, 1, 1) (2, 1, 1) =
     (Some GuardFillWithCoarsening, coarse_field) \<and>
   Coarsen_ngrow WARPX_DIM_3D cell_centred_library pair_average coarse_field fine_field 0 0 1 1 (2, 1, 1) =
     (Some GuardFillWithCoarsening, coarse_field)"
  using guard_fill_with_coarsening_fails
    [of WARPX_DIM_3D "(2, 1, 1)" "(1, 1, 1)" pair_average coarse_field fine_field 0 0 1
       cell_centred_library]
  by (simp add: cell_centred_library_def IntVect_of_def)

text \<open>
  The guard-cell check compares index vectors in the lexicographic order. A source that
  has no guard cell along the first axis and one along the second passes it when one cell
  is needed along the first axis and none along the second.
\<close>

lemma guard_check_is_lexicographic:
  "IntVect_ge WARPX_DIM_XZ (0, 1, 0) (IntVect_plus (IntVect_minus (1, 0, 0) (0, 0, 0)) (0, 0, 0))"
  by (simp add: IntVect_ge_def)

text \<open>
  What the guard-cell check of \<^verbatim>\<open>Loop\<close> catches, exactly: \<^verbatim>\<open>Loop\<close> stops with the error about
  the missing guard cells if and only if the earlier check passes and the guard-cell width
  of the source is below the requirement in the lexicographic order.
\<close>

lemma Loop_guard_check_exact:
  "fst (Loop D st mf_dst mf_src dcomp scmp ncomp ngrowvect crse_ratio) = Some NotEnoughGuardCells \<longleftrightarrow>
     \<not> (IntVect_gt D crse_ratio (IntVect_of 1) \<and> \<not> IntVect_eq D ngrowvect (IntVect_of 0)) \<and>
     IntVect_lt D (nGrowVect mf_src)
       (IntVect_plus (IntVect_minus (ixType mf_dst) (ixType mf_src)) ngrowvect)"
  by (auto simp: Loop_def IntVect_ge_def Let_def split: option.splits)

text \<open>
  In particular a deficit on every axis of the build is caught: \<^verbatim>\<open>Loop\<close> then stops with a
  configuration error and returns the destination as it received it, and so does
  \<^verbatim>\<open>Coarsen\<close> on either of its paths.
\<close>

lemma every_axis_guard_deficit_fails:
  assumes "list_all2 (<) (components D (nGrowVect mf_src))
             (components D (IntVect_plus (IntVect_minus (ixType mf_dst) (ixType mf_src)) ngrowvect))"
  shows "Loop D st mf_dst mf_src dcomp scmp ncomp ngrowvect crse_ratio =
           (Some (if IntVect_gt D crse_ratio (IntVect_of 1) \<and> \<not> IntVect_eq D ngrowvect (IntVect_of 0)
                  then GuardFillWithCoarsening else NotEnoughGuardCells), mf_dst) \<and>
         Coarsen D lib st mf_dst mf_src dcomp scmp ncomp ngrowvect crse_ratio =
           (Some (if \<not> coarsenable lib (convert lib (boxArray mf_src) (ixType mf_src) (ixType mf_dst))
                         (ixType mf_dst) crse_ratio
                  then NotCoarsenable
                  else if IntVect_gt D crse_ratio (IntVect_of 1) \<and> \<not> IntVect_eq D ngrowvect (IntVect_of 0)
                  then GuardFillWithCoarsening else NotEnoughGuardCells), mf_dst)"
proof -
  have lt: "IntVect_lt D (nGrowVect mf_src)
              (IntVect_plus (IntVect_minus (ixType mf_dst) (ixType mf_src)) ngrowvect)"
    using assms by (rule IntVect_all_less_lt)
  have l: "Loop D st d mf_src dc scmp ncomp ngrowvect crse_ratio =
           (Some (if IntVect_gt D crse_ratio (IntVect_of 1) \<and> \<not> IntVect_eq D ngrowvect (IntVect_of 0)
                  then GuardFillWithCoarsening else NotEnoughGuardCells), d)"
    if "ixType d = ixType mf_dst" for d dc
  proof (cases "IntVect_gt D crse_ratio (IntVect_of 1) \<and> \<not> IntVect_eq D ngrowvect (IntVect_of 0)")
    case True
    then show ?thesis by (simp add: Loop_guard_fill)
  next
    case False
    from lt that have "IntVect_lt D (nGrowVect mf_src)
              (IntVect_plus (IntVect_minus (ixType d) (ixType mf_src)) ngrowvect)"
      by simp
    with False show ?thesis
      using Loop_not_enough [of D crse_ratio ngrowvect mf_src d st dc scmp ncomp] by simp
  qed
  have c: "Coarsen D lib st mf_dst mf_src dcomp scmp ncomp ngrowvect crse_ratio =
     (Some (if coarsenable lib (convert lib (boxArray mf_src) (ixType mf_src) (ixType mf_dst))
                 (ixType mf_dst) crse_ratio
            then (if IntVect_gt D crse_ratio (IntVect_of 1) \<and> \<not> IntVect_eq D ngrowvect (IntVect_of 0)
                  then GuardFillWithCoarsening else NotEnoughGuardCells)
            else NotCoarsenable), mf_dst)"
    by (rule Coarsen_Loop_error) (rule l)
  show ?thesis
    using l [of mf_dst dcomp] c by simp
qed

lemma every_axis_guard_deficit_fails_example:
  "Loop WARPX_DIM_XZ pair_average (coarse_field\<lparr>ixType := (1, 1, 0)\<rparr>) fine_field 0 0 1 (0, 0, 0) (1, 1, 1) =
     (Some NotEnoughGuardCells, coarse_field\<lparr>ixType := (1, 1, 0)\<rparr>) \<and>
   Coarsen WARPX_DIM_XZ cell_centred_library pair_average (coarse_field\<lparr>ixType := (1, 1, 0)\<rparr>) fine_field
       0 0 1 (0, 0, 0) (1, 1, 1) =
     (Some NotEnoughGuardCells, coarse_field\<lparr>ixType := (1, 1, 0)\<rparr>)"
  using every_axis_guard_deficit_fails
    [of WARPX_DIM_XZ fine_field "coarse_field\<lparr>ixType := (1, 1, 0)\<rparr>" "(0, 0, 0)" pair_average 0 0 1
       "(1, 1, 1)" cell_centred_library]
  by (simp add: cell_centred_library_def IntVect_of_def IntVect_gt_def fine_field_def coarse_field_def)

text \<open>
  Claim C6 says that a source whose guard-cell width is below the staggering of the
  destination minus the staggering of the source plus the guard cells to fill makes the
  call stop with a configuration error before any destination cell is written. \<^verbatim>\<open>Loop\<close>
  misses a deficit on a lower axis, because its check compares in the lexicographic order.
  In the 2D build the source has the guard widths (0, 1) where (1, 0) is required. With
  any stencil, \<^verbatim>\<open>Loop\<close> stops neither with the error about the missing guard cells nor with
  the error about guard filling: both checks pass and the kernel runs.
\<close>

theorem lower_axis_guard_deficit_undetected:
  "components WARPX_DIM_XZ (nGrowVect xz_source) = [0, 1] \<and>
   components WARPX_DIM_XZ
     (IntVect_plus (IntVect_minus (ixType xz_destination) (ixType xz_source)) (0, 0, 0)) = [1, 0] \<and>
   fst (Loop WARPX_DIM_XZ st xz_destination xz_source 0 0 1 (0, 0, 0) (1, 1, 1)) \<noteq>
     Some NotEnoughGuardCells \<and>
   fst (Loop WARPX_DIM_XZ st xz_destination xz_source 0 0 1 (0, 0, 0) (1, 1, 1)) \<noteq>
     Some GuardFillWithCoarsening"
  by (simp add: Loop_def xz_source_def xz_destination_def IntVect_of_def IntVect_gt_def IntVect_ge_def
      Let_def split: option.splits)

text \<open>
  With the stencil that averages the two cells next to a node, the kernel then reads the
  source outside its allocation, at the cell left of the first node. With one guard cell
  along the first axis as well, the same call completes.
\<close>

lemmas xz_eval =
  Loop_def Loop_boxes_def write_cell_def Interp_def ParallelFor_range_def cells_def in_box_def
  grow_def xz_source_def xz_source_guarded_def xz_destination_def xz_box_def nodal_average_def
  IntVect_of_def IntVect_gt_def IntVect_ge_def Let_def upto.simps

lemma lower_axis_guard_deficit_reads_out_of_bounds:
  "fst (Loop WARPX_DIM_XZ nodal_average xz_destination xz_source 0 0 1 (0, 0, 0) (1, 1, 1)) =
     Some OutOfBoundsAccess"
  by (simp add: xz_eval)

lemma enough_guard_cells_complete:
  "fst (Loop WARPX_DIM_XZ nodal_average xz_destination xz_source_guarded 0 0 1 (0, 0, 0) (1, 1, 1)) =
     None"
  by (simp add: xz_eval)

section \<open>Properties of the coarsening utility: constant fields\<close>

lemma those_weighted_constant:
  assumes "holds_everywhere V arr"
  shows "those (map (\<lambda>(c, w). map_option (\<lambda>v. w * v) (arr (c, n))) xs) = Some ys \<Longrightarrow>
         sum_list ys = sum_list (map snd xs) * V"
proof (induction xs arbitrary: ys)
  case Nil
  then show ?case by simp
next
  case (Cons x xs)
  obtain c w where x: "x = (c, w)" by (cases x)
  from Cons.prems x obtain v zs where v: "arr (c, n) = Some v"
    and zs: "those (map (\<lambda>(c, w). map_option (\<lambda>v. w * v) (arr (c, n))) xs) = Some zs"
    and ys: "ys = w * v # zs"
    by (auto split: option.splits)
  from v assms have "v = V" unfolding holds_everywhere_def by blast
  with Cons.IH [OF zs] ys x show ?case by (simp add: algebra_simps)
qed

lemma Interp_constant:
  assumes "weighted_average st" and "holds_everywhere V arr_src"
    and "Interp st arr_src sf sc cr i j k n = Some v"
  shows "v = V"
proof -
  from assms(3) obtain ys where
    ys: "those (map (\<lambda>(c, w). map_option (\<lambda>v. w * v) (arr_src (c, n))) (st sf sc cr i j k)) = Some ys"
    and v: "v = sum_list ys"
    by (auto simp: Interp_def)
  have "sum_list (map snd (st sf sc cr i j k)) = 1"
    using assms(1) unfolding weighted_average_def by blast
  with those_weighted_constant [OF assms(2) ys] v show ?thesis by simp
qed

lemma write_cell_establish:
  assumes "weighted_average st" and "holds_everywhere V arr_src"
    and "write_cell st arr_src sf sc cr dcomp scmp cn arr = Some arr'"
  shows "arr' (fst cn, snd cn + dcomp) = Some V"
proof -
  obtain i j k n where cn: "cn = ((i, j, k), n)" by (metis prod.collapse)
  from assms(3) cn obtain v where v: "Interp st arr_src sf sc cr i j k (n + scmp) = Some v"
    and arr': "arr' = arr(((i, j, k), n + dcomp) \<mapsto> v)"
    by (auto simp: write_cell_def split: option.splits if_splits)
  from Interp_constant [OF assms(1,2) v] arr' cn show ?thesis by simp
qed

lemma write_cell_preserve:
  assumes "weighted_average st" and "holds_everywhere V arr_src"
    and "write_cell st arr_src sf sc cr dcomp scmp cn arr = Some arr'"
    and "arr key = Some V"
  shows "arr' key = Some V"
proof -
  obtain i j k n where cn: "cn = ((i, j, k), n)" by (metis prod.collapse)
  from assms(3) cn obtain v where v: "Interp st arr_src sf sc cr i j k (n + scmp) = Some v"
    and arr': "arr' = arr(((i, j, k), n + dcomp) \<mapsto> v)"
    by (auto simp: write_cell_def split: option.splits if_splits)
  from Interp_constant [OF assms(1,2) v] arr' assms(4) show ?thesis by simp
qed

lemma sweep_constant:
  assumes "weighted_average st" and "holds_everywhere V arr_src"
    and "for_each (write_cell st arr_src sf sc cr dcomp scmp) xs arr = Some arr'"
    and "cn \<in> set xs"
  shows "arr' (fst cn, snd cn + dcomp) = Some V"
  using assms(3,4)
  by (rule for_each_establish
        [where R = "\<lambda>cn a. a (fst cn, snd cn + dcomp) = Some V", rotated 2])
     (auto intro: write_cell_establish [OF assms(1,2)] write_cell_preserve [OF assms(1,2)])

lemma ParallelFor_range_iff:
  "(c, n) \<in> set (ParallelFor_range D bx ncomp) \<longleftrightarrow> c \<in> set (cells D bx) \<and> 0 \<le> n \<and> n < ncomp"
  by (auto simp: ParallelFor_range_def)

lemma in_cells_iff: "c \<in> set (cells D bx) \<longleftrightarrow> in_box D bx c"
  by (cases "smallEnd bx"; cases "bigEnd bx"; cases c) (auto simp: cells_def in_box_def image_iff)

lemma Loop_boxes_constant:
  assumes avg: "weighted_average st" and const: "field_constant V mf_src"
    and run: "Loop_boxes D st mf_dst mf_src sf sc cr dcomp scmp ncomp ngrowvect = Some arrs"
    and m: "m < length (boxArray mf_dst)"
    and c: "c \<in> set (cells D (grow (boxArray mf_dst ! m) ngrowvect))"
    and n: "0 \<le> n" "n < ncomp"
  shows "m < length arrs \<and> (arrs ! m) (c, n + dcomp) = Some V"
proof -
  let ?range = "\<lambda>m. ParallelFor_range D (grow (boxArray mf_dst ! m) ngrowvect) ncomp"
  let ?R = "\<lambda>m as. m < length as \<and> (\<forall>cn \<in> set (?range m). (as ! m) (fst cn, snd cn + dcomp) = Some V)"
  let ?body = "\<lambda>mfi arrs.
        if mfi < length arrs \<and> mfi < length (fabs mf_src) then
          let bx = grow (boxArray mf_dst ! mfi) ngrowvect in
          map_option (\<lambda>arr_dst. arrs[mfi := arr_dst])
            (for_each (write_cell st (fabs mf_src ! mfi) sf sc cr dcomp scmp)
               (ParallelFor_range D bx ncomp) (arrs ! mfi))
        else None"
  have est: "?R x as'" if b: "?body x as = Some as'" for x as as'
  proof -
    from b have x: "x < length as" "x < length (fabs mf_src)"
      by (auto split: if_splits)
    with b obtain a where a: "for_each (write_cell st (fabs mf_src ! x) sf sc cr dcomp scmp)
               (?range x) (as ! x) = Some a" and as': "as' = as[x := a]"
      by (auto simp: Let_def)
    from const x(2) have "holds_everywhere V (fabs mf_src ! x)"
      by (simp add: field_constant_def)
    from sweep_constant [OF avg this a] as' x(1) show ?thesis by simp
  qed
  have pres: "?R x as'" if r: "?R x as" and b: "?body y as = Some as'" for x y as as'
  proof (cases "x = y")
    case True
    with b est show ?thesis by blast
  next
    case False
    from b obtain a where "as' = as[y := a]"
      by (auto simp: Let_def split: if_splits)
    with r False show ?thesis by simp
  qed
  from run have fe: "for_each ?body [0 ..< length (boxArray mf_dst)] (fabs mf_dst) = Some arrs"
    by (simp add: Loop_boxes_def)
  from m have "m \<in> set [0 ..< length (boxArray mf_dst)]" by simp
  with fe have "?R m arrs"
    by (rule for_each_establish [where R = ?R and body = ?body, rotated 2])
       (use est pres in blast)+
  moreover from c n have "(c, n) \<in> set (?range m)" by (simp add: ParallelFor_range_iff)
  ultimately show ?thesis by fastforce
qed

lemma Loop_constant:
  assumes avg: "weighted_average st" and const: "field_constant V mf_src"
    and run: "Loop D st mf_dst mf_src dcomp scmp ncomp ngrowvect crse_ratio = (None, mf_dst')"
    and m: "m < length (boxArray mf_dst)"
    and c: "c \<in> set (cells D (grow (boxArray mf_dst ! m) ngrowvect))"
    and n: "0 \<le> n" "n < ncomp"
  shows "m < length (fabs mf_dst') \<and> (fabs mf_dst' ! m) (c, n + dcomp) = Some V \<and> boxArray mf_dst' = boxArray mf_dst"
proof -
  from run obtain sf sc cr arrs where
    lb: "Loop_boxes D st mf_dst mf_src sf sc cr dcomp scmp ncomp ngrowvect = Some arrs"
    and d: "mf_dst' = mf_dst\<lparr>fabs := arrs\<rparr>"
    by (auto simp: Loop_def Let_def split: if_splits option.splits)
  from Loop_boxes_constant [OF avg const lb m c n] d show ?thesis by simp
qed

lemma copy_cell_establish:
  assumes "copy_cell D mf_src scmp dcomp cn arr = Some arr'"
    and "covering_box D (boxArray mf_src) (fst cn) = Some t"
    and "(fabs mf_src ! t) (fst cn, snd cn + scmp) = Some V"
  shows "arr' (fst cn, snd cn + dcomp) = Some V"
  using assms by (cases cn) (auto simp: copy_cell_def split: option.splits if_splits)

lemma copy_cell_preserve:
  assumes "copy_cell D mf_src scmp dcomp cn' arr = Some arr'"
    and "covering_box D (boxArray mf_src) (fst cn) = Some t"
    and "(fabs mf_src ! t) (fst cn, snd cn + scmp) = Some V"
    and "arr (fst cn, snd cn + dcomp) = Some V"
  shows "arr' (fst cn, snd cn + dcomp) = Some V"
  using assms by (cases cn; cases cn') (auto simp: copy_cell_def split: option.splits if_splits)

lemma copy_sweep:
  assumes "for_each (copy_cell D mf_src scmp dcomp) xs arr = Some arr'"
    and "cn \<in> set xs"
    and "covering_box D (boxArray mf_src) (fst cn) = Some t"
    and "(fabs mf_src ! t) (fst cn, snd cn + scmp) = Some V"
  shows "arr' (fst cn, snd cn + dcomp) = Some V"
proof -
  let ?G = "\<lambda>cn. \<exists>t. covering_box D (boxArray mf_src) (fst cn) = Some t \<and>
                   (fabs mf_src ! t) (fst cn, snd cn + scmp) = Some V"
  let ?R = "\<lambda>cn a. ?G cn \<longrightarrow> a (fst cn, snd cn + dcomp) = Some V"
  have "?R cn arr'"
    using assms(1,2)
    by (rule for_each_establish [where R = ?R, rotated 2])
       (blast intro: copy_cell_establish copy_cell_preserve)+
  with assms(3,4) show ?thesis by blast
qed

lemma ParallelCopy_covered:
  assumes run: "ParallelCopy D mf_dst mf_src scmp dcomp ncomp = Some mf_dst'"
    and m: "m < length (boxArray mf_dst)"
    and c: "c \<in> set (cells D (boxArray mf_dst ! m))"
    and n: "0 \<le> n" "n < ncomp"
    and t: "covering_box D (boxArray mf_src) c = Some t"
    and v: "(fabs mf_src ! t) (c, n + scmp) = Some V"
  shows "(fabs mf_dst' ! m) (c, n + dcomp) = Some V"
proof -
  let ?range = "\<lambda>m. ParallelFor_range D (boxArray mf_dst ! m) ncomp"
  let ?G = "\<lambda>cn. \<exists>t. covering_box D (boxArray mf_src) (fst cn) = Some t \<and>
                   (fabs mf_src ! t) (fst cn, snd cn + scmp) = Some V"
  let ?R = "\<lambda>m as. m < length as \<and>
              (\<forall>cn \<in> set (?range m). ?G cn \<longrightarrow> (as ! m) (fst cn, snd cn + dcomp) = Some V)"
  let ?body = "\<lambda>mfi arrs.
           if mfi < length arrs then
             map_option (\<lambda>arr_dst. arrs[mfi := arr_dst])
               (for_each (copy_cell D mf_src scmp dcomp)
                  (ParallelFor_range D (boxArray mf_dst ! mfi) ncomp) (arrs ! mfi))
           else None"
  have est: "?R x as'" if b: "?body x as = Some as'" for x as as'
  proof -
    from b have x: "x < length as"
      by (auto split: if_splits)
    with b obtain a where a: "for_each (copy_cell D mf_src scmp dcomp) (?range x) (as ! x) = Some a"
      and as': "as' = as[x := a]"
      by auto
    from copy_sweep [OF a] as' x show ?thesis by auto
  qed
  have pres: "?R x as'" if r: "?R x as" and b: "?body y as = Some as'" for x y as as'
  proof (cases "x = y")
    case True
    with b est show ?thesis by blast
  next
    case False
    from b obtain a where "as' = as[y := a]"
      by (auto split: if_splits)
    with r False show ?thesis by simp
  qed
  from run obtain arrs where
    fe: "for_each ?body [0 ..< length (boxArray mf_dst)] (fabs mf_dst) = Some arrs"
    and d: "mf_dst' = mf_dst\<lparr>fabs := arrs\<rparr>"
    by (auto simp: ParallelCopy_def)
  from m have "m \<in> set [0 ..< length (boxArray mf_dst)]" by simp
  with fe have "?R m arrs"
    by (rule for_each_establish [where R = ?R and body = ?body, rotated 2])
       (use est pres in blast)+
  moreover from c n have "(c, n) \<in> set (?range m)" by (simp add: ParallelFor_range_iff)
  ultimately show ?thesis using t v d by fastforce
qed

lemma covering_box_Some:
  "covering_box D ba c = Some t \<Longrightarrow> t < length ba \<and> in_box D (ba ! t) c"
  by (auto simp: covering_box_def find_Some_iff)

lemma Coarsen_direct:
  assumes "same_layout D lib mf_dst mf_src crse_ratio"
    and "fst (Coarsen D lib st mf_dst mf_src dcomp scmp ncomp ngrowvect crse_ratio) = None"
  shows "Loop D st mf_dst mf_src dcomp scmp ncomp ngrowvect crse_ratio =
           (None, snd (Coarsen D lib st mf_dst mf_src dcomp scmp ncomp ngrowvect crse_ratio))"
  using assms
  by (auto simp: Coarsen_def same_layout_def coarsened_source_def Let_def prod_eq_iff split: if_splits)

lemma Coarsen_via_temporary:
  assumes "\<not> same_layout D lib mf_dst mf_src crse_ratio"
    and "fst (Coarsen D lib st mf_dst mf_src dcomp scmp ncomp ngrowvect crse_ratio) = None"
  shows "\<exists>mf_tmp'.
           Loop D st (MultiFab_new D lib (coarsened_source lib mf_dst mf_src crse_ratio) (ixType mf_dst)
                        (DistributionMap mf_src) ncomp 0)
                mf_src 0 scmp ncomp ngrowvect crse_ratio = (None, mf_tmp') \<and>
           ParallelCopy D mf_dst mf_tmp' 0 dcomp ncomp =
             Some (snd (Coarsen D lib st mf_dst mf_src dcomp scmp ncomp ngrowvect crse_ratio))"
  using assms
  by (auto simp: Coarsen_def same_layout_def coarsened_source_def Let_def
           split: if_splits option.splits prod.splits)

lemma Coarsen_constant_direct:
  assumes avg: "weighted_average st" and const: "field_constant V mf_src"
    and ok: "fst (Coarsen D lib st mf_dst mf_src dcomp scmp ncomp ngrowvect crse_ratio) = None"
    and same: "same_layout D lib mf_dst mf_src crse_ratio"
    and m: "m < length (boxArray mf_dst)"
    and c: "c \<in> set (cells D (grow (boxArray mf_dst ! m) ngrowvect))"
    and n: "0 \<le> n" "n < ncomp"
  shows "(fabs (snd (Coarsen D lib st mf_dst mf_src dcomp scmp ncomp ngrowvect crse_ratio)) ! m)
           (c, n + dcomp) = Some V"
  using Loop_constant [OF avg const Coarsen_direct [OF same ok] m c n] by simp

lemma Coarsen_constant_via_temporary:
  assumes avg: "weighted_average st" and const: "field_constant V mf_src"
    and ok: "fst (Coarsen D lib st mf_dst mf_src dcomp scmp ncomp ngrowvect crse_ratio) = None"
    and other: "\<not> same_layout D lib mf_dst mf_src crse_ratio"
    and m: "m < length (boxArray mf_dst)"
    and c: "c \<in> set (cells D (boxArray mf_dst ! m))"
    and n: "0 \<le> n" "n < ncomp"
    and t: "covering_box D (coarsened_source lib mf_dst mf_src crse_ratio) c = Some t"
    and w: "in_box D (grow (coarsened_source lib mf_dst mf_src crse_ratio ! t) ngrowvect) c"
  shows "(fabs (snd (Coarsen D lib st mf_dst mf_src dcomp scmp ncomp ngrowvect crse_ratio)) ! m)
           (c, n + dcomp) = Some V"
proof -
  let ?ba = "coarsened_source lib mf_dst mf_src crse_ratio"
  let ?tmp = "MultiFab_new D lib ?ba (ixType mf_dst) (DistributionMap mf_src) ncomp 0"
  from Coarsen_via_temporary [OF other ok] obtain mf_tmp' where
    l: "Loop D st ?tmp mf_src 0 scmp ncomp ngrowvect crse_ratio = (None, mf_tmp')"
    and p: "ParallelCopy D mf_dst mf_tmp' 0 dcomp ncomp =
             Some (snd (Coarsen D lib st mf_dst mf_src dcomp scmp ncomp ngrowvect crse_ratio))"
    by blast
  have ba: "boxArray ?tmp = ?ba" by (simp add: MultiFab_new_def)
  from covering_box_Some [OF t] have t': "t < length (boxArray ?tmp)" by (simp add: ba)
  from w have c': "c \<in> set (cells D (grow (boxArray ?tmp ! t) ngrowvect))"
    by (simp add: ba in_cells_iff)
  from Loop_constant [OF avg const l t' c' n]
  have v: "(fabs mf_tmp' ! t) (c, n + 0) = Some V" and b: "boxArray mf_tmp' = ?ba"
    by (simp_all add: ba)
  from t b have "covering_box D (boxArray mf_tmp') c = Some t" by simp
  from ParallelCopy_covered [OF p m c n this v] show ?thesis .
qed

lemmas coarsen_eval =
  Coarsen_def Loop_def Loop_boxes_def ParallelCopy_def copy_cell_def covering_box_def write_cell_def
  Interp_def ParallelFor_range_def cells_def in_box_def grow_def MultiFab_new_def BoxArray_eq_def
  Box_eq_def IntVect_of_def IntVect_gt_def IntVect_ge_def same_layout_def coarsened_source_def
  cell_centred_library_def pair_average_def fine_field_def wide_fine_field_def coarse_field_def
  unit_box_def Let_def upto.simps

lemma pair_average_is_average: "weighted_average pair_average"
  by (simp add: weighted_average_def pair_average_def)

lemma fine_field_constant: "field_constant 1 fine_field"
  by (simp add: field_constant_def holds_everywhere_def fine_field_def)

lemma wide_fine_field_constant: "field_constant 1 wide_fine_field"
  by (simp add: field_constant_def holds_everywhere_def wide_fine_field_def)

text \<open>
  Claim C2, as stated, fails. In the 1D build take the fine field of four ones, the coarse
  field of four zeros and ratio 2. The call is accepted and returns normally. The fine
  field lies over the coarse cells 0 and 1 only, the layouts differ, and the copy from the
  temporary reaches the overlap only: the coarse cell 2, a cell of the destination inside
  the requested bounds, still holds 0 although every source cell holds 1.
\<close>

theorem coarsen_uncovered_cell_counterexample:
  "weighted_average pair_average \<and>
   field_constant 1 fine_field \<and>
   fst (Coarsen WARPX_DIM_1D_Z cell_centred_library pair_average coarse_field fine_field
          0 0 1 (0, 0, 0) (2, 1, 1)) = None \<and>
   in_box WARPX_DIM_1D_Z (grow (boxArray coarse_field ! 0) (0, 0, 0)) (2, 0, 0) \<and>
   (fabs (snd (Coarsen WARPX_DIM_1D_Z cell_centred_library pair_average coarse_field fine_field
                 0 0 1 (0, 0, 0) (2, 1, 1))) ! 0) ((2, 0, 0), 0 + 0) = Some 0"
proof -
  have "fst (Coarsen WARPX_DIM_1D_Z cell_centred_library pair_average coarse_field fine_field
          0 0 1 (0, 0, 0) (2, 1, 1)) = None"
    by (simp add: coarsen_eval)
  moreover have "in_box WARPX_DIM_1D_Z (grow (boxArray coarse_field ! 0) (0, 0, 0)) (2, 0, 0)"
    by (simp add: coarsen_eval)
  moreover have "(fabs (snd (Coarsen WARPX_DIM_1D_Z cell_centred_library pair_average coarse_field
                 fine_field 0 0 1 (0, 0, 0) (2, 1, 1))) ! 0) ((2, 0, 0), 0 + 0) = Some 0"
    by (simp add: coarsen_eval)
  ultimately show ?thesis
    using pair_average_is_average fine_field_constant by blast
qed

text \<open>
  Claim C2, amended. Let the stencil be a weighted average, let every value stored in the
  source be \<open>V\<close>, and let \<^verbatim>\<open>Coarsen\<close> return normally. When the coarsened boxes of the
  source are the boxes of the destination, with the same distribution, every cell of every
  destination box grown by the guard cells to fill holds \<open>V\<close> in each of the \<open>ncomp\<close>
  components from \<open>dcomp\<close> on. Otherwise every cell of a valid box of the destination that
  lies in a coarsened box of the source, within what the interpolation wrote of that box,
  holds \<open>V\<close> in these components; nothing is said about the other cells (they keep their
  values).
\<close>

theorem coarsen_preserves_constant:
  assumes "weighted_average st" and "field_constant V mf_src"
    and "fst (Coarsen D lib st mf_dst mf_src dcomp scmp ncomp ngrowvect crse_ratio) = None"
    and "m < length (boxArray mf_dst)" and "0 \<le> n" and "n < ncomp"
  shows "(same_layout D lib mf_dst mf_src crse_ratio \<longrightarrow>
            in_box D (grow (boxArray mf_dst ! m) ngrowvect) c \<longrightarrow>
            (fabs (snd (Coarsen D lib st mf_dst mf_src dcomp scmp ncomp ngrowvect crse_ratio)) ! m)
              (c, n + dcomp) = Some V) \<and>
         (\<not> same_layout D lib mf_dst mf_src crse_ratio \<longrightarrow>
            in_box D (boxArray mf_dst ! m) c \<longrightarrow>
            covering_box D (coarsened_source lib mf_dst mf_src crse_ratio) c = Some t \<longrightarrow>
            in_box D (grow (coarsened_source lib mf_dst mf_src crse_ratio ! t) ngrowvect) c \<longrightarrow>
            (fabs (snd (Coarsen D lib st mf_dst mf_src dcomp scmp ncomp ngrowvect crse_ratio)) ! m)
              (c, n + dcomp) = Some V)"
  using Coarsen_constant_direct [OF assms(1-3) _ assms(4) _ assms(5,6), of c]
    Coarsen_constant_via_temporary [OF assms(1-3) _ assms(4) _ assms(5,6), of c t]
  by (simp add: in_cells_iff)

theorem coarsen_preserves_constant_witness:
  "fst (Coarsen WARPX_DIM_1D_Z cell_centred_library pair_average coarse_field fine_field
          0 0 1 (0, 0, 0) (2, 1, 1)) = None \<and>
   (fabs (snd (Coarsen WARPX_DIM_1D_Z cell_centred_library pair_average coarse_field fine_field
                 0 0 1 (0, 0, 0) (2, 1, 1))) ! 0) ((1, 0, 0), 0) = Some 1 \<and>
   fst (Coarsen WARPX_DIM_1D_Z cell_centred_library pair_average coarse_field wide_fine_field
          0 0 1 (0, 0, 0) (2, 1, 1)) = None \<and>
   (fabs (snd (Coarsen WARPX_DIM_1D_Z cell_centred_library pair_average coarse_field wide_fine_field
                 0 0 1 (0, 0, 0) (2, 1, 1))) ! 0) ((3, 0, 0), 0) = Some 1"
proof -
  have ok: "fst (Coarsen WARPX_DIM_1D_Z cell_centred_library pair_average coarse_field fine_field
          0 0 1 (0, 0, 0) (2, 1, 1)) = None"
    by (simp add: coarsen_eval)
  have other: "\<not> same_layout WARPX_DIM_1D_Z cell_centred_library coarse_field fine_field (2, 1, 1)"
    by (simp add: coarsen_eval)
  have inb: "in_box WARPX_DIM_1D_Z (boxArray coarse_field ! 0) (1, 0, 0)"
    by (simp add: coarsen_eval)
  have cov: "covering_box WARPX_DIM_1D_Z
               (coarsened_source cell_centred_library coarse_field fine_field (2, 1, 1)) (1, 0, 0) = Some 0"
    by (simp add: coarsen_eval)
  have wr: "in_box WARPX_DIM_1D_Z
              (grow (coarsened_source cell_centred_library coarse_field fine_field (2, 1, 1) ! 0) (0, 0, 0))
              (1, 0, 0)"
    by (simp add: coarsen_eval)
  have ok': "fst (Coarsen WARPX_DIM_1D_Z cell_centred_library pair_average coarse_field wide_fine_field
          0 0 1 (0, 0, 0) (2, 1, 1)) = None"
    by (simp add: coarsen_eval)
  have same: "same_layout WARPX_DIM_1D_Z cell_centred_library coarse_field wide_fine_field (2, 1, 1)"
    by (simp add: coarsen_eval)
  have inb': "in_box WARPX_DIM_1D_Z (grow (boxArray coarse_field ! 0) (0, 0, 0)) (3, 0, 0)"
    by (simp add: coarsen_eval)
  have len: "0 < length (boxArray coarse_field)"
    by (simp add: coarse_field_def)
  from coarsen_preserves_constant
         [OF pair_average_is_average fine_field_constant ok len, where n = 0 and c = "(1, 0, 0)" and t = 0]
       other inb cov wr
  have a: "(fabs (snd (Coarsen WARPX_DIM_1D_Z cell_centred_library pair_average coarse_field fine_field
                 0 0 1 (0, 0, 0) (2, 1, 1))) ! 0) ((1, 0, 0), 0) = Some 1"
    by simp
  from coarsen_preserves_constant
         [OF pair_average_is_average wide_fine_field_constant ok' len, where n = 0 and c = "(3, 0, 0)"]
       same inb'
  have b: "(fabs (snd (Coarsen WARPX_DIM_1D_Z cell_centred_library pair_average coarse_field
                 wide_fine_field 0 0 1 (0, 0, 0) (2, 1, 1))) ! 0) ((3, 0, 0), 0) = Some 1"
    by simp
  from ok a ok' b show ?thesis by blast
qed

section \<open>Properties of the spectral solver\<close>

lemma push_keeps_settings:
  "m_dt (fst (pushSpectralFields formula update solver g)) = m_dt solver \<and>
   options (fst (pushSpectralFields formula update solver g)) = options solver"
  by (simp add: pushSpectralFields_def InitializeSpectralCoefficients_def options_def Let_def)

lemma push_keeps_cache:
  assumes "coefficients_initialized solver \<longrightarrow> coefficients solver = formula (m_dt solver) ks"
    and "k_vectors g = ks"
  shows "coefficients_initialized (fst (pushSpectralFields formula update solver g)) \<and>
         coefficients (fst (pushSpectralFields formula update solver g)) = formula (m_dt solver) ks"
  using assms
  by (simp add: pushSpectralFields_def InitializeSpectralCoefficients_def Let_def)

lemma after_pushes_settings:
  "m_dt (after_pushes formula update solver gs) = m_dt solver \<and>
   options (after_pushes formula update solver gs) = options solver"
  by (induction gs arbitrary: solver) (simp_all add: push_keeps_settings)

lemma after_pushes_cache:
  assumes "\<forall>g \<in> set gs. k_vectors g = ks"
    and "coefficients_initialized solver \<longrightarrow> coefficients solver = formula (m_dt solver) ks"
  shows "coefficients_initialized (after_pushes formula update solver gs) \<longrightarrow>
         coefficients (after_pushes formula update solver gs) = formula (m_dt solver) ks"
  using assms
proof (induction gs arbitrary: solver)
  case Nil
  then show ?case by simp
next
  case (Cons g gs)
  let ?s = "fst (pushSpectralFields formula update solver g)"
  from Cons.prems have g: "k_vectors g = ks" and gs: "\<forall>g \<in> set gs. k_vectors g = ks"
    by simp_all
  from push_keeps_cache [where formula = formula and update = update, OF Cons.prems(2) g]
    push_keeps_settings [of formula update solver g]
  have "coefficients_initialized ?s \<longrightarrow> coefficients ?s = formula (m_dt ?s) ks"
    by simp
  from Cons.IH [OF gs this]
    push_keeps_settings [of formula update solver g]
  show ?case by simp
qed

lemma push_with_valid_cache:
  assumes "coefficients_initialized solver \<longrightarrow> coefficients solver = formula (m_dt solver) (k_vectors f)"
  shows "snd (pushSpectralFields formula update solver f) =
         f\<lparr>field_values := update (options solver) (formula (m_dt solver) (k_vectors f)) (field_values f)\<rparr>"
  using assms
  by (simp add: pushSpectralFields_def InitializeSpectralCoefficients_def options_def Let_def)

text \<open>
  Claim C7. Take a solver built for the time step \<open>dt\<close> that has already advanced any
  number of field states on the spectral layout of \<open>f\<close>, so that its coefficients, if built,
  were built earlier and are cached, and a second solver built for the same \<open>dt\<close> and
  options that has not been used, so that it builds its coefficients now. Advancing \<open>f\<close>
  gives the same field data with either.
\<close>

theorem cached_coefficients_same_advance:
  assumes "\<forall>g \<in> set earlier. k_vectors g = k_vectors f"
  shows "snd (pushSpectralFields formula update
                (after_pushes formula update
                   (PsatdAlgorithmRZ_new dt rho avg multi_J dive divb unset) earlier) f) =
         snd (pushSpectralFields formula update
                (PsatdAlgorithmRZ_new dt rho avg multi_J dive divb unset') f)"
proof -
  let ?used = "PsatdAlgorithmRZ_new dt rho avg multi_J dive divb unset"
  let ?fresh = "PsatdAlgorithmRZ_new dt rho avg multi_J dive divb unset'"
  have start: "coefficients_initialized ?used \<longrightarrow>
               coefficients ?used = formula (m_dt ?used) (k_vectors f)"
    by (simp add: PsatdAlgorithmRZ_new_def)
  have cached: "coefficients_initialized (after_pushes formula update ?used earlier) \<longrightarrow>
                coefficients (after_pushes formula update ?used earlier) =
                  formula (m_dt (after_pushes formula update ?used earlier)) (k_vectors f)"
    using after_pushes_cache [where formula = formula and update = update, OF assms start]
      after_pushes_settings [of formula update ?used earlier]
    by simp
  have fresh: "coefficients_initialized ?fresh \<longrightarrow>
               coefficients ?fresh = formula (m_dt ?fresh) (k_vectors f)"
    by (simp add: PsatdAlgorithmRZ_new_def)
  have same: "m_dt (after_pushes formula update ?used earlier) = m_dt ?fresh \<and>
              options (after_pushes formula update ?used earlier) = options ?fresh"
    using after_pushes_settings [of formula update ?used earlier]
    by (simp add: PsatdAlgorithmRZ_new_def options_def)
  show ?thesis
    using push_with_valid_cache [where formula = formula and update = update, OF cached]
      push_with_valid_cache [where formula = formula and update = update, OF fresh] same
    by simp
qed

theorem cached_coefficients_same_advance_witness:
  "coefficients_initialized
     (after_pushes toy_formula toy_update
        (PsatdAlgorithmRZ_new (1 / 2) True False False False False unset_coefficients) [earlier_state]) \<and>
   snd (pushSpectralFields toy_formula toy_update
          (after_pushes toy_formula toy_update
             (PsatdAlgorithmRZ_new (1 / 2) True False False False False unset_coefficients)
             [earlier_state]) current_state) =
   snd (pushSpectralFields toy_formula toy_update
          (PsatdAlgorithmRZ_new (1 / 2) True False False False False other_coefficients) current_state) \<and>
   field_values
     (snd (pushSpectralFields toy_formula toy_update
             (PsatdAlgorithmRZ_new (1 / 2) True False False False False other_coefficients)
             current_state)) = [2, 0]"
proof -
  have k: "\<forall>g \<in> set [earlier_state]. k_vectors g = k_vectors current_state"
    by (simp add: earlier_state_def current_state_def)
  have i: "coefficients_initialized
     (after_pushes toy_formula toy_update
        (PsatdAlgorithmRZ_new (1 / 2) True False False False False unset_coefficients) [earlier_state])"
    by (simp add: pushSpectralFields_def Let_def)
  have v: "field_values
     (snd (pushSpectralFields toy_formula toy_update
             (PsatdAlgorithmRZ_new (1 / 2) True False False False False other_coefficients)
             current_state)) = [2, 0]"
    by (simp add: pushSpectralFields_def InitializeSpectralCoefficients_def PsatdAlgorithmRZ_new_def
        toy_formula_def toy_update_def current_state_def options_def Let_def)
  from cached_coefficients_same_advance
         [OF k, of toy_formula toy_update "1 / 2" True False False False False unset_coefficients
            other_coefficients]
       i v
  show ?thesis by blast
qed

section \<open>Properties of the charge deposition\<close>

lemma add_to_cell_apply: "add_to_cell c v rho x = (if x = c then rho c + v else rho x)"
  by (simp add: add_to_cell_def)

lemma total_add_to_cell:
  "distinct mesh \<Longrightarrow> c \<in> set mesh \<Longrightarrow>
   total_on_mesh mesh (add_to_cell c v rho) = total_on_mesh mesh rho + v"
proof (induction mesh)
  case Nil
  then show ?case by simp
next
  case (Cons a mesh)
  show ?case
  proof (cases "a = c")
    case True
    with Cons.prems have "c \<notin> set mesh" by simp
    then have "map (add_to_cell c v rho) mesh = map rho mesh"
      by (auto simp: add_to_cell_apply)
    then have "total_on_mesh mesh (add_to_cell c v rho) = total_on_mesh mesh rho"
      unfolding total_on_mesh_def by (rule arg_cong)
    with True show ?thesis by (simp add: total_on_mesh_def, simp add: add_to_cell_apply)
  next
    case False
    with Cons show ?thesis by (simp add: total_on_mesh_def add_to_cell_apply)
  qed
qed

lemma total_scatter:
  "distinct mesh \<Longrightarrow> fst ` set st \<subseteq> set mesh \<Longrightarrow>
   total_on_mesh mesh (fold (\<lambda>cs. add_to_cell (fst cs) (a * snd cs)) st rho) =
     total_on_mesh mesh rho + a * sum_list (map snd st)"
  by (induction st arbitrary: rho) (simp_all add: total_add_to_cell algebra_simps)

lemma total_deposit_particle:
  assumes "partition_of_unity shape" and "distinct mesh"
    and "fst ` set (shape (position p)) \<subseteq> set mesh"
  shows "total_on_mesh mesh (deposit_particle q shape p rho) = total_on_mesh mesh rho + weight p * q"
proof -
  have "sum_list (map snd (shape (position p))) = 1"
    using assms(1) unfolding partition_of_unity_def by blast
  with total_scatter [OF assms(2,3), of "q * weight p" rho] show ?thesis
    by (simp add: deposit_particle_def)
qed

lemma total_fold_deposit:
  assumes "partition_of_unity shape" and "distinct mesh"
  shows "\<forall>p \<in> set particles. fst ` set (shape (position p)) \<subseteq> set mesh \<Longrightarrow>
         total_on_mesh mesh (fold (deposit_particle q shape) particles rho) =
           total_on_mesh mesh rho + sumParticleCharge q particles"
  by (induction particles arbitrary: rho)
     (simp_all add: sumParticleCharge_def total_deposit_particle [OF assms])

lemma sum_list_of_concat: "sum_list (concat xss) = sum_list (map sum_list xss)"
  for xss :: "real list list"
  by (induction xss) simp_all

lemma sum_shape_3d:
  "sum_list (map snd (shape_3d s (x, y, z))) =
     sum_list (map snd (s x)) * sum_list (map snd (s y)) * sum_list (map snd (s z))"
  by (simp add: shape_3d_def map_concat comp_def sum_list_of_concat sum_list_mult_const
       sum_list_const_mult mult.assoc)

lemma cells_shape_3d:
  "fst ` set (shape_3d s (x, y, z)) =
     {(i, j, k). i \<in> fst ` set (s x) \<and> j \<in> fst ` set (s y) \<and> k \<in> fst ` set (s z)}"
  by (force simp: shape_3d_def image_iff)

text \<open>
  Both shapes hand out the whole charge at every position, also at a position exactly on a
  grid point or half-way between two.
\<close>

lemma nearest_grid_point_unity: "partition_of_unity (shape_3d nearest_grid_point)"
  by (simp add: partition_of_unity_def sum_shape_3d nearest_grid_point_def)

lemma linear_shape_unity: "partition_of_unity (shape_3d linear_shape)"
  by (simp add: partition_of_unity_def sum_shape_3d linear_shape_def)

text \<open>
  Claim C5. Let the shape function hand out the whole charge of a particle at every
  position, and let the mesh, a list of distinct cells, contain every cell that a particle
  touches. Then, for every list of particles with their weights and positions and every
  charge \<open>q\<close> of the species, the sum over the mesh after the deposition is the sum before
  it (zero when the mesh is reset) plus the sum of the weights times \<open>q\<close>.
\<close>

theorem deposited_charge_is_conserved:
  assumes "partition_of_unity shape" and "distinct mesh"
    and "\<forall>p \<in> set particles. fst ` set (shape (position p)) \<subseteq> set mesh"
  shows "total_on_mesh mesh (DepositCharge q shape particles reset rho) =
           (if reset then 0 else total_on_mesh mesh rho) + sumParticleCharge q particles"
  using total_fold_deposit [OF assms(1,2,3), of q "if reset then (\<lambda>c. 0) else rho"]
  by (simp add: DepositCharge_def total_on_mesh_def)

lemma example_mesh_distinct: "distinct example_mesh"
  by (simp add: example_mesh_def upto.simps)

lemma set_example_mesh:
  "set example_mesh = {(i, j, k). 0 \<le> i \<and> i \<le> 2 \<and> 0 \<le> j \<and> j \<le> 2 \<and> 0 \<le> k \<and> k \<le> 2}"
  by (auto simp: example_mesh_def image_iff)

lemma example_particles_on_mesh:
  "\<forall>p \<in> set example_particles. fst ` set (shape_3d linear_shape (position p)) \<subseteq> set example_mesh"
  by (auto simp: example_particles_def cells_shape_3d set_example_mesh linear_shape_def)

theorem deposited_charge_is_conserved_witness:
  "total_on_mesh example_mesh
     (DepositCharge (- 1) (shape_3d linear_shape) example_particles True (\<lambda>c. 4)) = - 10 \<and>
   sumParticleCharge (- 1) example_particles = - 10"
  using deposited_charge_is_conserved
    [OF linear_shape_unity example_mesh_distinct example_particles_on_mesh, of "- 1" True "\<lambda>c. 4"]
  by (simp add: sumParticleCharge_def example_particles_def)

end
